theory Spec2Isabelle
  imports Main
begin

section \<open>The data model of the request builders\<close>

text \<open>
  The package is a thin layer over Go's \<^verbatim>\<open>net/http\<close>. A header bag (\<^verbatim>\<open>http.Header\<close>,
  that is \<^verbatim>\<open>map[string][]string\<close>) is a reference in Go: two struct values that hold the same
  map see each other's writes. The model therefore keeps every header map in an explicit store
  and lets builders, clients and requests hold addresses. Time spans (\<^verbatim>\<open>time.Duration\<close>, an
  \<^verbatim>\<open>int64\<close> of nanoseconds) are integers; the code only compares them with zero and with each
  other. Strings are byte lists.
\<close>

type_synonym header = "string \<rightharpoonup> string list"

text \<open>A value of type \<^verbatim>\<open>http.Header\<close>: the address of a map, or \<open>None\<close> for the nil map.\<close>

type_synonym href = "nat option"

text \<open>
  Contexts are built by the \<^verbatim>\<open>context\<close> package. The code under study only passes them on
  and wraps them with \<^verbatim>\<open>context.WithTimeout\<close>, so a context is the term that says how it was
  derived; a nil context is \<open>None\<close> of \<open>Context option\<close>. The cancel function that
  \<^verbatim>\<open>context.WithTimeout\<close> returns is named after the context it cancels. There is no clock
  here: which deadline a derived context has is decided inside \<^verbatim>\<open>context.WithTimeout\<close>, and no
  result below speaks of it.
\<close>

datatype Context = Background | TODO | WithTimeout Context int

datatype cancelFunc = CancelOf Context

definition context_WithTimeout :: "Context \<Rightarrow> int \<Rightarrow> Context \<times> cancelFunc" where
  "context_WithTimeout parent d = (WithTimeout parent d, CancelOf (WithTimeout parent d))"

text \<open>
  Errors. \<open>External\<close> stands for an error value made outside the package (by the standard
  library, a middleware or the transport); the other constructors are the package's own
  \<^verbatim>\<open>fmt.Errorf\<close> calls, one per format string, wrapping the cause where the format has \<^verbatim>\<open>%w\<close>.
\<close>

datatype error =
    External string
  | InvalidBuilder
  | RequestConstructionError error
  | MiddlewareError nat error
  | TransportError error
  | BodyReadError error
  | EncodingError error

text \<open>
  The run-time panics of the code paths modelled here: a write to a nil map, and a nil pointer
  dereference.
\<close>

datatype panic = NilMapAssignment | NilPointerDereference

text \<open>
  \<^verbatim>\<open>*http.Request\<close>, with the fields that \<^verbatim>\<open>http.NewRequestWithContext\<close> fills from its
  arguments, and the header map, which is held by reference. The request struct itself is a
  value here: every \<open>Prepare\<close> makes a new one, and no builder keeps it.
\<close>

record hreq =
  hr_ctx :: Context
  hr_method :: string
  hr_url :: string
  hr_body :: "string option"
  hr_Header :: href

text \<open>
  The world: the store of header maps (\<open>cells\<close>, with \<open>fresh\<close> the next unused address;
  maps are never freed) and \<open>wire\<close>, the history of the requests handed to
  \<^verbatim>\<open>http.Client.Do\<close>, each with the header values it carried at that moment.
\<close>

record world =
  cells :: "nat \<Rightarrow> header"
  fresh :: nat
  wire :: "(hreq \<times> header) list"

definition world0 :: world where
  "world0 = \<lparr>cells = (\<lambda>_. Map.empty), fresh = 0, wire = []\<rparr>"

text \<open>
  A response body (\<^verbatim>\<open>io.ReadCloser\<close>) is modelled by what \<^verbatim>\<open>io.ReadAll\<close> returns on it: the
  bytes read and the error, if any.
\<close>

type_synonym readCloser = "string \<times> error option"

record response =
  StatusCode :: int
  Body :: readCloser

text \<open>
  \<^verbatim>\<open>http.Client\<close>. \<open>Transport\<close> is what sending a request does: it may fail, and it
  sees the world. \<open>CheckRedirect\<close> and \<open>Jar\<close> are opaque handles that the package copies.
\<close>

record http_Client =
  CheckRedirect :: "nat option"
  Jar :: "nat option"
  Transport :: "hreq \<Rightarrow> world \<Rightarrow> (error + response) \<times> world"
  Timeout :: int

type_synonym RequestMiddleware =
  "Context option \<Rightarrow> hreq option \<Rightarrow> world \<Rightarrow> (hreq option \<times> error option) \<times> world"

record Client =
  host :: string
  conn :: "http_Client option"
  defaultTimeout :: int
  dheaders :: href
  middlewares :: "RequestMiddleware list"

record StreamRequester =
  cli :: Client
  headers :: href
  timeout :: int

text \<open>\<open>Requester\<close> and \<open>JSONRequester\<close> each wrap the builder below by value.\<close>

record Requester =
  core :: StreamRequester

record JSONRequester =
  jcore :: Requester

section \<open>Header maps\<close>

text \<open>
  The operations of \<^verbatim>\<open>http.Header\<close> that the package calls. Keys are canonicalised by
  \<^verbatim>\<open>textproto.CanonicalMIMEHeaderKey\<close>, which is a parameter \<open>canon\<close> of every operation
  here, so that each result below holds for whatever that function computes. A read of the nil
  map finds nothing; a write to it panics; \<open>Clone\<close> of nil is nil, and \<open>Clone\<close> of a map is a
  new map with the same keys and copies of the value lists. A value list is a list here and
  not a slice over shared storage: \<open>Clone\<close> copies the values and gives each copy its exact
  capacity, \<open>Set\<close> makes a new slice, and so no \<open>Add\<close> writes into storage that another map
  can see.
\<close>

definition hmap :: "href \<Rightarrow> world \<Rightarrow> header" where
  "hmap h w = (case h of None \<Rightarrow> Map.empty | Some a \<Rightarrow> cells w a)"

definition Header_Values :: "(string \<Rightarrow> string) \<Rightarrow> href \<Rightarrow> string \<Rightarrow> world \<Rightarrow> string list" where
  "Header_Values canon h k w = (case hmap h w (canon k) of None \<Rightarrow> [] | Some vs \<Rightarrow> vs)"

definition Header_Get :: "(string \<Rightarrow> string) \<Rightarrow> href \<Rightarrow> string \<Rightarrow> world \<Rightarrow> string" where
  "Header_Get canon h k w = (case Header_Values canon h k w of [] \<Rightarrow> [] | v # _ \<Rightarrow> v)"

definition Header_Add :: "(string \<Rightarrow> string) \<Rightarrow> href \<Rightarrow> string \<Rightarrow> string \<Rightarrow> world \<Rightarrow> panic + world" where
  "Header_Add canon h k v w =
     (case h of
        None \<Rightarrow> Inl NilMapAssignment
      | Some a \<Rightarrow>
          Inr (w\<lparr>cells := (cells w)(a := (cells w a)(canon k \<mapsto> Header_Values canon h k w @ [v]))\<rparr>))"

definition Header_Set :: "(string \<Rightarrow> string) \<Rightarrow> href \<Rightarrow> string \<Rightarrow> string \<Rightarrow> world \<Rightarrow> panic + world" where
  "Header_Set canon h k v w =
     (case h of
        None \<Rightarrow> Inl NilMapAssignment
      | Some a \<Rightarrow> Inr (w\<lparr>cells := (cells w)(a := (cells w a)(canon k \<mapsto> [v]))\<rparr>))"

definition Header_Clone :: "href \<Rightarrow> world \<Rightarrow> href \<times> world" where
  "Header_Clone h w =
     (case h of
        None \<Rightarrow> (None, w)
      | Some a \<Rightarrow>
          (Some (fresh w), w\<lparr>cells := (cells w)(fresh w := cells w a), fresh := Suc (fresh w)\<rparr>))"

definition make_Header :: "world \<Rightarrow> href \<times> world" where
  "make_Header w =
     (Some (fresh w), w\<lparr>cells := (cells w)(fresh w := Map.empty), fresh := Suc (fresh w)\<rparr>)"

text \<open>
  \<^verbatim>\<open>textproto.CanonicalMIMEHeaderKey\<close> itself, for the concrete examples: a key with a byte
  that is not a header token byte is returned as it is; otherwise the first letter and every
  letter after a hyphen are made upper case and the other letters lower case.
\<close>

definition validHeaderFieldByte :: "char \<Rightarrow> bool" where
  "validHeaderFieldByte c =
     (let n = (of_char c :: nat) in
      (48 \<le> n \<and> n \<le> 57) \<or> (65 \<le> n \<and> n \<le> 90) \<or> (97 \<le> n \<and> n \<le> 122) \<or>
      c \<in> set ''!#$%&*+-.^_`|~'' \<or> n = 39)"

fun canonicalise :: "bool \<Rightarrow> string \<Rightarrow> string" where
  "canonicalise upper [] = []"
| "canonicalise upper (c # cs) =
     (let n = (of_char c :: nat);
          c' = (if upper \<and> 97 \<le> n \<and> n \<le> 122 then char_of (n - 32)
                else if \<not> upper \<and> 65 \<le> n \<and> n \<le> 90 then char_of (n + 32)
                else c)
      in c' # canonicalise (c' = CHR ''-'') cs)"

definition CanonicalMIMEHeaderKey :: "string \<Rightarrow> string" where
  "CanonicalMIMEHeaderKey s = (if list_all validHeaderFieldByte s then canonicalise True s else s)"

section \<open>Joining the host and the endpoint\<close>

definition HasSuffix_slash :: "string \<Rightarrow> bool" where
  "HasSuffix_slash s = (s \<noteq> [] \<and> last s = CHR ''/'')"

definition HasPrefix_slash :: "string \<Rightarrow> bool" where
  "HasPrefix_slash s = (case s of [] \<Rightarrow> False | c # _ \<Rightarrow> c = CHR ''/'')"

definition combineURL :: "string \<Rightarrow> string \<Rightarrow> string" where
  "combineURL base endpoint =
     (if HasSuffix_slash base then
        (if HasPrefix_slash endpoint then base @ drop 1 endpoint else base @ endpoint)
      else if HasPrefix_slash endpoint then base @ endpoint
      else base @ ''/'' @ endpoint)"

text \<open>
  The separators at the join, to state what the specification asks of it. A base ends with a
  run of slashes and an endpoint starts with one; \<open>separators_at_join B E R n\<close> says that
  \<open>R\<close> is the base without its trailing slashes, then exactly \<open>n\<close> slashes, then the endpoint
  without its leading slashes.
\<close>

definition is_slash :: "char \<Rightarrow> bool" where
  "is_slash c = (c = CHR ''/'')"

definition trailing_slashes :: "string \<Rightarrow> nat" where
  "trailing_slashes s = length (takeWhile is_slash (rev s))"

definition leading_slashes :: "string \<Rightarrow> nat" where
  "leading_slashes s = length (takeWhile is_slash s)"

definition without_trailing_slashes :: "string \<Rightarrow> string" where
  "without_trailing_slashes s = rev (dropWhile is_slash (rev s))"

definition without_leading_slashes :: "string \<Rightarrow> string" where
  "without_leading_slashes s = dropWhile is_slash s"

definition separators_at_join :: "string \<Rightarrow> string \<Rightarrow> string \<Rightarrow> nat \<Rightarrow> bool" where
  "separators_at_join B E R n =
     (R = without_trailing_slashes B @ replicate n CHR ''/'' @ without_leading_slashes E)"

text \<open>
  The number of slashes that the three rules leave at the join: one of the slashes is dropped
  when both sides have some, one is put in when neither side has any, and otherwise all are
  kept.
\<close>

definition join_slashes :: "string \<Rightarrow> string \<Rightarrow> nat" where
  "join_slashes B E =
     (if 0 < trailing_slashes B \<and> 0 < leading_slashes E
      then trailing_slashes B + leading_slashes E - 1
      else if trailing_slashes B = 0 \<and> leading_slashes E = 0 then 1
      else trailing_slashes B + leading_slashes E)"

section \<open>The stream request builder\<close>

text \<open>
  Every method has a value receiver: it works on a copy of the struct. The copy holds the same
  header map as the original until \<open>Clone\<close> replaces it.
\<close>

definition StreamRequester_validate :: "StreamRequester \<Rightarrow> error option" where
  "StreamRequester_validate req =
     (case conn (cli req) of None \<Rightarrow> Some InvalidBuilder | Some _ \<Rightarrow> None)"

definition StreamRequester_Clone :: "StreamRequester \<Rightarrow> world \<Rightarrow> StreamRequester \<times> world" where
  "StreamRequester_Clone req w =
     (case Header_Clone (headers req) w of
        (h, w') \<Rightarrow> (\<lparr>cli = cli req, headers = h, timeout = timeout req\<rparr>, w'))"

definition StreamRequester_WithHeader ::
  "(string \<Rightarrow> string) \<Rightarrow> StreamRequester \<Rightarrow> string \<Rightarrow> string \<Rightarrow> world
     \<Rightarrow> panic + (StreamRequester \<times> world)" where
  "StreamRequester_WithHeader canon req key val w =
     (case StreamRequester_Clone req w of
        (req', w') \<Rightarrow>
          (case Header_Add canon (headers req') key val w' of
             Inl p \<Rightarrow> Inl p
           | Inr w'' \<Rightarrow> Inr (req', w'')))"

definition StreamRequester_WithUniqueHeader ::
  "(string \<Rightarrow> string) \<Rightarrow> StreamRequester \<Rightarrow> string \<Rightarrow> string \<Rightarrow> world
     \<Rightarrow> panic + (StreamRequester \<times> world)" where
  "StreamRequester_WithUniqueHeader canon req key val w =
     (case StreamRequester_Clone req w of
        (req', w') \<Rightarrow>
          (case Header_Set canon (headers req') key val w' of
             Inl p \<Rightarrow> Inl p
           | Inr w'' \<Rightarrow> Inr (req', w'')))"

text \<open>
  A loop \<^verbatim>\<open>for k, v := range m { h.Set(k, v) }\<close> over a Go map. The map is given as the
  list of its pairs in the order in which the run time happens to visit them.
\<close>

fun Header_Set_each ::
  "(string \<Rightarrow> string) \<Rightarrow> href \<Rightarrow> (string \<times> string) list \<Rightarrow> world \<Rightarrow> panic + world" where
  "Header_Set_each canon h [] w = Inr w"
| "Header_Set_each canon h ((k, v) # kvs) w =
     (case Header_Set canon h k v w of
        Inl p \<Rightarrow> Inl p
      | Inr w' \<Rightarrow> Header_Set_each canon h kvs w')"

definition StreamRequester_WithHeaders ::
  "(string \<Rightarrow> string) \<Rightarrow> StreamRequester \<Rightarrow> (string \<times> string) list \<Rightarrow> world
     \<Rightarrow> panic + (StreamRequester \<times> world)" where
  "StreamRequester_WithHeaders canon req kvs w =
     (case StreamRequester_Clone req w of
        (req', w') \<Rightarrow>
          (case Header_Set_each canon (headers req') kvs w' of
             Inl p \<Rightarrow> Inl p
           | Inr w'' \<Rightarrow> Inr (req', w'')))"

definition StreamRequester_WithTimeout :: "StreamRequester \<Rightarrow> int \<Rightarrow> StreamRequester" where
  "StreamRequester_WithTimeout req t = req\<lparr>timeout := t\<rparr>"

definition Client_FullURL :: "Client \<Rightarrow> string \<Rightarrow> string" where
  "Client_FullURL c endpoint = combineURL (host c) endpoint"

text \<open>
  The middleware loop of \<open>Prepare\<close>, from index \<open>i\<close> on. A middleware returns a request and
  an error; the loop looks at the error first.
\<close>

fun run_middlewares ::
  "nat \<Rightarrow> RequestMiddleware list \<Rightarrow> Context option \<Rightarrow> hreq option \<Rightarrow> world
     \<Rightarrow> (hreq option \<times> error option) \<times> world" where
  "run_middlewares i [] ctx hreq w = ((hreq, None), w)"
| "run_middlewares i (m # ms) ctx hreq w =
     (case m ctx hreq w of
        ((hreq', Some err), w') \<Rightarrow> ((None, Some (MiddlewareError i err)), w')
      | ((hreq', None), w') \<Rightarrow> run_middlewares (Suc i) ms ctx hreq' w')"

text \<open>
  \<open>Prepare\<close>. \<^verbatim>\<open>http.NewRequestWithContext\<close> is the parameter \<open>newRequest\<close>: it returns an
  error or a request. The request's header map is then replaced by the builder's own map:
  the assignment copies the reference, not the map. The argument \<open>meth\<close> is the HTTP method.
\<close>

definition StreamRequester_Prepare ::
  "(Context option \<Rightarrow> string \<Rightarrow> string \<Rightarrow> string option \<Rightarrow> error + hreq)
     \<Rightarrow> StreamRequester \<Rightarrow> Context option \<Rightarrow> string \<Rightarrow> string \<Rightarrow> string option \<Rightarrow> world
     \<Rightarrow> (hreq option \<times> error option) \<times> world" where
  "StreamRequester_Prepare newRequest req ctx meth endpoint body w =
     (case StreamRequester_validate req of
        Some err \<Rightarrow> ((None, Some err), w)
      | None \<Rightarrow>
          (case newRequest ctx meth (Client_FullURL (cli req) endpoint) body of
             Inl err \<Rightarrow> ((None, Some (RequestConstructionError err)), w)
           | Inr hreq \<Rightarrow>
               run_middlewares 0 (middlewares (cli req)) ctx
                 (Some (hreq\<lparr>hr_Header := headers req\<rparr>)) w))"

text \<open>
  \<^verbatim>\<open>http.Client.Do\<close>: it dereferences the request, so a nil request panics; otherwise the
  request goes on the wire, with the header values its map holds now, and the transport answers.
\<close>

definition http_Client_Do ::
  "http_Client \<Rightarrow> hreq option \<Rightarrow> world \<Rightarrow> panic + ((error + response) \<times> world)" where
  "http_Client_Do c hreq w =
     (case hreq of
        None \<Rightarrow> Inl NilPointerDereference
      | Some r \<Rightarrow> Inr (Transport c r (w\<lparr>wire := wire w @ [(r, hmap (hr_Header r) w)]\<rparr>)))"

definition StreamRequester_Do ::
  "(Context option \<Rightarrow> string \<Rightarrow> string \<Rightarrow> string option \<Rightarrow> error + hreq)
     \<Rightarrow> StreamRequester \<Rightarrow> Context option \<Rightarrow> string \<Rightarrow> string \<Rightarrow> string option \<Rightarrow> world
     \<Rightarrow> panic + ((int \<times> readCloser option \<times> error option) \<times> world)" where
  "StreamRequester_Do newRequest req ctx meth endpoint body w =
     (case StreamRequester_Prepare newRequest req ctx meth endpoint body w of
        ((hreq, Some err), w1) \<Rightarrow> Inr ((0, None, Some (RequestConstructionError err)), w1)
      | ((hreq, None), w1) \<Rightarrow>
          (case conn (cli req) of
             None \<Rightarrow> Inl NilPointerDereference
           | Some c \<Rightarrow>
               (case http_Client_Do c hreq w1 of
                  Inl p \<Rightarrow> Inl p
                | Inr (Inl err, w2) \<Rightarrow> Inr ((0, None, Some (TransportError err)), w2)
                | Inr (Inr res, w2) \<Rightarrow> Inr ((StatusCode res, Some (Body res), None), w2))))"

definition StreamRequester_Context ::
  "StreamRequester \<Rightarrow> Context option \<Rightarrow> Context \<times> cancelFunc option" where
  "StreamRequester_Context req ctx =
     (let ctx' = (case ctx of None \<Rightarrow> Background | Some c \<Rightarrow> c) in
      if timeout req > 0 then
        (case context_WithTimeout ctx' (timeout req) of (c, cancel) \<Rightarrow> (c, Some cancel))
      else (ctx', None))"

section \<open>The buffered and the JSON request builder\<close>

definition Requester_WithTimeout :: "Requester \<Rightarrow> int \<Rightarrow> Requester" where
  "Requester_WithTimeout req t = req\<lparr>core := StreamRequester_WithTimeout (core req) t\<rparr>"

definition Requester_WithHeader ::
  "(string \<Rightarrow> string) \<Rightarrow> Requester \<Rightarrow> string \<Rightarrow> string \<Rightarrow> world \<Rightarrow> panic + (Requester \<times> world)" where
  "Requester_WithHeader canon req key val w =
     (case StreamRequester_WithHeader canon (core req) key val w of
        Inl p \<Rightarrow> Inl p
      | Inr (c, w') \<Rightarrow> Inr (req\<lparr>core := c\<rparr>, w'))"

definition Requester_WithUniqueHeader ::
  "(string \<Rightarrow> string) \<Rightarrow> Requester \<Rightarrow> string \<Rightarrow> string \<Rightarrow> world \<Rightarrow> panic + (Requester \<times> world)" where
  "Requester_WithUniqueHeader canon req key val w =
     (case StreamRequester_WithUniqueHeader canon (core req) key val w of
        Inl p \<Rightarrow> Inl p
      | Inr (c, w') \<Rightarrow> Inr (req\<lparr>core := c\<rparr>, w'))"

definition Requester_WithHeaders ::
  "(string \<Rightarrow> string) \<Rightarrow> Requester \<Rightarrow> (string \<times> string) list \<Rightarrow> world
     \<Rightarrow> panic + (Requester \<times> world)" where
  "Requester_WithHeaders canon req kvs w =
     (case StreamRequester_WithHeaders canon (core req) kvs w of
        Inl p \<Rightarrow> Inl p
      | Inr (c, w') \<Rightarrow> Inr (req\<lparr>core := c\<rparr>, w'))"

text \<open>\<^verbatim>\<open>bytes.NewBuffer(body)\<close> is a reader that is never nil, also for a nil slice.\<close>

definition Requester_Prepare ::
  "(Context option \<Rightarrow> string \<Rightarrow> string \<Rightarrow> string option \<Rightarrow> error + hreq)
     \<Rightarrow> Requester \<Rightarrow> Context option \<Rightarrow> string \<Rightarrow> string \<Rightarrow> string \<Rightarrow> world
     \<Rightarrow> (hreq option \<times> error option) \<times> world" where
  "Requester_Prepare newRequest req ctx meth endpoint body w =
     StreamRequester_Prepare newRequest (core req) ctx meth endpoint (Some body) w"

text \<open>
  \<open>Do\<close> of the buffered builder returns a status, the body bytes (\<open>None\<close> for a nil slice)
  and an error. The deferred \<^verbatim>\<open>cancel()\<close> and \<^verbatim>\<open>payload.Close()\<close> release resources of the
  run time and change nothing that the model holds.
\<close>

definition Requester_Do ::
  "(Context option \<Rightarrow> string \<Rightarrow> string \<Rightarrow> string option \<Rightarrow> error + hreq)
     \<Rightarrow> Requester \<Rightarrow> Context option \<Rightarrow> string \<Rightarrow> string \<Rightarrow> string \<Rightarrow> world
     \<Rightarrow> panic + ((int \<times> string option \<times> error option) \<times> world)" where
  "Requester_Do newRequest req ctx meth endpoint data w =
     (case StreamRequester_Context (core req) ctx of
        (ctx', cancel) \<Rightarrow>
          (case StreamRequester_Do newRequest (core req) (Some ctx') meth endpoint (Some data) w of
             Inl p \<Rightarrow> Inl p
           | Inr ((status, payload, Some err), w1) \<Rightarrow> Inr ((0, None, Some err), w1)
           | Inr ((status, payload, None), w1) \<Rightarrow>
               (case payload of
                  None \<Rightarrow> Inl NilPointerDereference
                | Some (bytes, Some err) \<Rightarrow> Inr ((status, None, Some (BodyReadError err)), w1)
                | Some (bytes, None) \<Rightarrow> Inr ((status, Some bytes, None), w1))))"

text \<open>\<^verbatim>\<open>json.Marshal\<close> is the parameter \<open>marshal\<close>: an error or the encoded bytes.\<close>

definition JSONRequester_Prepare ::
  "('a \<Rightarrow> error + string)
     \<Rightarrow> (Context option \<Rightarrow> string \<Rightarrow> string \<Rightarrow> string option \<Rightarrow> error + hreq)
     \<Rightarrow> JSONRequester \<Rightarrow> Context option \<Rightarrow> string \<Rightarrow> string \<Rightarrow> 'a \<Rightarrow> world
     \<Rightarrow> (hreq option \<times> error option) \<times> world" where
  "JSONRequester_Prepare marshal newRequest req ctx meth endpoint data w =
     (case marshal data of
        Inl err \<Rightarrow> ((None, Some (EncodingError err)), w)
      | Inr ebody \<Rightarrow> Requester_Prepare newRequest (jcore req) ctx meth endpoint ebody w)"

definition JSONRequester_Do ::
  "('a \<Rightarrow> error + string)
     \<Rightarrow> (Context option \<Rightarrow> string \<Rightarrow> string \<Rightarrow> string option \<Rightarrow> error + hreq)
     \<Rightarrow> JSONRequester \<Rightarrow> Context option \<Rightarrow> string \<Rightarrow> string \<Rightarrow> 'a \<Rightarrow> world
     \<Rightarrow> panic + ((int \<times> string option \<times> error option) \<times> world)" where
  "JSONRequester_Do marshal newRequest req ctx meth endpoint data w =
     (case marshal data of
        Inl err \<Rightarrow> Inr ((0, None, Some (EncodingError err)), w)
      | Inr ebody \<Rightarrow> Requester_Do newRequest (jcore req) ctx meth endpoint ebody w)"

definition JSONRequester_WithTimeout :: "JSONRequester \<Rightarrow> int \<Rightarrow> JSONRequester" where
  "JSONRequester_WithTimeout req t = req\<lparr>jcore := Requester_WithTimeout (jcore req) t\<rparr>"

definition JSONRequester_WithHeader ::
  "(string \<Rightarrow> string) \<Rightarrow> JSONRequester \<Rightarrow> string \<Rightarrow> string \<Rightarrow> world
     \<Rightarrow> panic + (JSONRequester \<times> world)" where
  "JSONRequester_WithHeader canon req key val w =
     (case Requester_WithHeader canon (jcore req) key val w of
        Inl p \<Rightarrow> Inl p
      | Inr (c, w') \<Rightarrow> Inr (req\<lparr>jcore := c\<rparr>, w'))"

definition JSONRequester_WithUniqueHeader ::
  "(string \<Rightarrow> string) \<Rightarrow> JSONRequester \<Rightarrow> string \<Rightarrow> string \<Rightarrow> world
     \<Rightarrow> panic + (JSONRequester \<times> world)" where
  "JSONRequester_WithUniqueHeader canon req key val w =
     (case Requester_WithUniqueHeader canon (jcore req) key val w of
        Inl p \<Rightarrow> Inl p
      | Inr (c, w') \<Rightarrow> Inr (req\<lparr>jcore := c\<rparr>, w'))"

definition JSONRequester_WithHeaders ::
  "(string \<Rightarrow> string) \<Rightarrow> JSONRequester \<Rightarrow> (string \<times> string) list \<Rightarrow> world
     \<Rightarrow> panic + (JSONRequester \<times> world)" where
  "JSONRequester_WithHeaders canon req kvs w =
     (case Requester_WithHeaders canon (jcore req) kvs w of
        Inl p \<Rightarrow> Inl p
      | Inr (c, w') \<Rightarrow> Inr (req\<lparr>jcore := c\<rparr>, w'))"

section \<open>The client\<close>

text \<open>
  \<open>userAgent\<close> reads the process environment and the current user. Both are the argument
  \<open>env\<close>: \<^verbatim>\<open>os.Getenv\<close> gives the empty string for a variable that is not set, and
  \<^verbatim>\<open>user.Current\<close> gives a user or fails (\<open>None\<close>).
\<close>

record os_User =
  Name :: string
  Username :: string
  HomeDir :: string

record environ =
  USER_AGENT :: string
  SYSTEM :: string
  COMPONENT :: string
  user_Current :: "os_User option"

definition httpAgentPrefix :: string where
  "httpAgentPrefix = ''go-webservice/v0''"

definition userAgent :: "environ \<Rightarrow> string" where
  "userAgent env =
     (if USER_AGENT env \<noteq> [] then httpAgentPrefix @ ''/'' @ USER_AGENT env
      else if SYSTEM env \<noteq> [] then
        (if COMPONENT env \<noteq> [] then httpAgentPrefix @ ''/'' @ SYSTEM env @ ''/'' @ COMPONENT env
         else httpAgentPrefix @ ''/'' @ SYSTEM env)
      else
        (case user_Current env of
           None \<Rightarrow> ''UNKNOWN''
         | Some usr \<Rightarrow>
             if Name usr \<noteq> [] then httpAgentPrefix @ ''/'' @ Name usr
             else if Username usr \<noteq> [] then httpAgentPrefix @ ''/'' @ Username usr
             else if HomeDir usr \<noteq> [] then httpAgentPrefix @ ''/'' @ HomeDir usr
             else ''UNKNOWN''))"

text \<open>
  Connection options: the numeric fields. The dialer hook and the TLS configuration, which only
  the network sees, are left out. \<open>NewConn\<close> builds an \<^verbatim>\<open>http.Transport\<close> from the options;
  what that transport does on the network is the parameter \<open>network\<close>.
\<close>

definition Second :: int where
  "Second = 1000000000"

record ConnOptions =
  maxIdleConns :: int
  maxIdleConnsPerHost :: int
  maxConnsPerHost :: int
  tcpKeepAlive :: int
  keepAlive :: int
  connTimeout :: int
  requestTimeout :: int

definition DefaultConnOptions :: ConnOptions where
  "DefaultConnOptions =
     \<lparr>maxIdleConns = 5, maxIdleConnsPerHost = 5, maxConnsPerHost = 100,
      tcpKeepAlive = 30 * Second, keepAlive = 30 * Second, connTimeout = 10 * Second,
      requestTimeout = 0\<rparr>"

definition ConnOptions_WithTimeout :: "ConnOptions \<Rightarrow> int \<Rightarrow> ConnOptions" where
  "ConnOptions_WithTimeout options val = options\<lparr>connTimeout := val\<rparr>"

definition ConnOptions_WithRequestTimeout :: "ConnOptions \<Rightarrow> int \<Rightarrow> ConnOptions" where
  "ConnOptions_WithRequestTimeout options val = options\<lparr>requestTimeout := val\<rparr>"

definition ConnOptions_sanitize :: "ConnOptions \<Rightarrow> ConnOptions" where
  "ConnOptions_sanitize options =
     (let o1 = (if keepAlive options = 0
                then options\<lparr>keepAlive := 30 * Second, tcpKeepAlive := 30 * Second\<rparr>
                else options);
          o2 = (if maxIdleConns o1 = 0 then o1\<lparr>maxIdleConns := 5, maxIdleConnsPerHost := 5\<rparr>
                else o1)
      in if connTimeout o2 = 0 then o2\<lparr>connTimeout := 3 * Second\<rparr> else o2)"

definition NewConn ::
  "(ConnOptions \<Rightarrow> hreq \<Rightarrow> world \<Rightarrow> (error + response) \<times> world) \<Rightarrow> ConnOptions \<Rightarrow> http_Client" where
  "NewConn network opts =
     (let opts' = ConnOptions_sanitize opts in
      \<lparr>CheckRedirect = None, Jar = None, Transport = network opts',
       Timeout = requestTimeout opts'\<rparr>)"

record ClientOptions =
  Conn :: "http_Client option"
  MaxRequestTimeout :: int
  Headers :: href
  Middlewares :: "RequestMiddleware list"

fun Header_Add_each ::
  "(string \<Rightarrow> string) \<Rightarrow> href \<Rightarrow> (string \<times> string) list \<Rightarrow> world \<Rightarrow> panic + world" where
  "Header_Add_each canon h [] w = Inr w"
| "Header_Add_each canon h ((k, v) # kvs) w =
     (case Header_Add canon h k v w of
        Inl p \<Rightarrow> Inl p
      | Inr w' \<Rightarrow> Header_Add_each canon h kvs w')"

definition ClientOptions_AddHeaders ::
  "(string \<Rightarrow> string) \<Rightarrow> ClientOptions \<Rightarrow> (string \<times> string) list \<Rightarrow> world
     \<Rightarrow> panic + (ClientOptions \<times> world)" where
  "ClientOptions_AddHeaders canon options kvs w =
     (case (case Headers options of
              None \<Rightarrow> (case make_Header w of (h, w') \<Rightarrow> (options\<lparr>Headers := h\<rparr>, w'))
            | Some _ \<Rightarrow> (options, w)) of
        (options', w') \<Rightarrow>
          (case Header_Add_each canon (Headers options') kvs w' of
             Inl p \<Rightarrow> Inl p
           | Inr w'' \<Rightarrow> Inr (options', w'')))"

definition ClientOptions_sanitize ::
  "(ConnOptions \<Rightarrow> hreq \<Rightarrow> world \<Rightarrow> (error + response) \<times> world) \<Rightarrow> ClientOptions \<Rightarrow> world
     \<Rightarrow> ClientOptions \<times> world" where
  "ClientOptions_sanitize network options w =
     (let o1 = (if MaxRequestTimeout options = 0 * Second
                then options\<lparr>MaxRequestTimeout := 5 * Second\<rparr> else options);
          o2 = (case Conn o1 of
                  None \<Rightarrow>
                    o1\<lparr>Conn := Some (NewConn network
                      (ConnOptions_WithTimeout
                        (ConnOptions_WithRequestTimeout DefaultConnOptions (MaxRequestTimeout o1))
                        (MaxRequestTimeout o1)))\<rparr>
                | Some _ \<Rightarrow> o1)
      in case Headers o2 of
           None \<Rightarrow> (case make_Header w of (h, w') \<Rightarrow> (o2\<lparr>Headers := h\<rparr>, w'))
         | Some _ \<Rightarrow> (o2, w))"

text \<open>
  \<open>NewCustomClient\<close>. The client takes the header map of the sanitised options as it is, by
  reference, and then adds the user agent to it.
\<close>

definition NewCustomClient ::
  "(string \<Rightarrow> string) \<Rightarrow> (ConnOptions \<Rightarrow> hreq \<Rightarrow> world \<Rightarrow> (error + response) \<times> world) \<Rightarrow> environ
     \<Rightarrow> string \<Rightarrow> ClientOptions \<Rightarrow> world \<Rightarrow> panic + (Client \<times> world)" where
  "NewCustomClient canon network env h options0 w0 =
     (case ClientOptions_sanitize network options0 w0 of
        (options, w) \<Rightarrow>
          (let client = \<lparr>host = h, conn = Conn options,
                         defaultTimeout = MaxRequestTimeout options,
                         dheaders = Headers options, middlewares = Middlewares options\<rparr>
           in case Header_Add canon (dheaders client) ''User-Agent'' (userAgent env) w of
                Inl p \<Rightarrow> Inl p
              | Inr w' \<Rightarrow>
                  if defaultTimeout client > 0 then
                    (case conn client of
                       None \<Rightarrow> Inl NilPointerDereference
                     | Some c \<Rightarrow>
                         if Timeout c \<noteq> defaultTimeout client then
                           Inr (client\<lparr>conn := Some \<lparr>CheckRedirect = CheckRedirect c, Jar = Jar c,
                                  Transport = Transport c, Timeout = defaultTimeout client\<rparr>\<rparr>, w')
                         else Inr (client, w'))
                  else Inr (client, w')))"

definition NewClient ::
  "(string \<Rightarrow> string) \<Rightarrow> (ConnOptions \<Rightarrow> hreq \<Rightarrow> world \<Rightarrow> (error + response) \<times> world) \<Rightarrow> environ
     \<Rightarrow> string \<Rightarrow> world \<Rightarrow> panic + (Client \<times> world)" where
  "NewClient canon network env h w =
     NewCustomClient canon network env h
       \<lparr>Conn = None, MaxRequestTimeout = 0, Headers = None, Middlewares = []\<rparr> w"

text \<open>
  Request options: functions that change the builder under construction in place. The client
  methods that make them do not use their receiver, which is left out.
\<close>

type_synonym RequestOption = "StreamRequester \<Rightarrow> world \<Rightarrow> panic + (StreamRequester \<times> world)"

definition Client_RequestTimeout :: "int \<Rightarrow> RequestOption" where
  "Client_RequestTimeout t = (\<lambda>req w. Inr (req\<lparr>timeout := t\<rparr>, w))"

definition Client_RequestHeaders :: "(string \<Rightarrow> string) \<Rightarrow> (string \<times> string) list \<Rightarrow> RequestOption" where
  "Client_RequestHeaders canon kvs =
     (\<lambda>req w. case Header_Set_each canon (headers req) kvs w of
                 Inl p \<Rightarrow> Inl p
               | Inr w' \<Rightarrow> Inr (req, w'))"

definition Client_RequestHeader :: "(string \<Rightarrow> string) \<Rightarrow> string \<Rightarrow> string \<Rightarrow> RequestOption" where
  "Client_RequestHeader canon k v =
     (\<lambda>req w. case Header_Add canon (headers req) k v w of
                 Inl p \<Rightarrow> Inl p
               | Inr w' \<Rightarrow> Inr (req, w'))"

definition Client_RequestUniqueHeader :: "(string \<Rightarrow> string) \<Rightarrow> string \<Rightarrow> string \<Rightarrow> RequestOption" where
  "Client_RequestUniqueHeader canon k v =
     (\<lambda>req w. case Header_Set canon (headers req) k v w of
                 Inl p \<Rightarrow> Inl p
               | Inr w' \<Rightarrow> Inr (req, w'))"

definition Client_WithDefaultHeader :: "(string \<Rightarrow> string) \<Rightarrow> string \<Rightarrow> string \<Rightarrow> RequestOption" where
  "Client_WithDefaultHeader canon k v =
     (\<lambda>req w. if Header_Get canon (headers req) k w \<noteq> [] then Inr (req, w)
               else (case Header_Set canon (headers req) k v w of
                       Inl p \<Rightarrow> Inl p
                     | Inr w' \<Rightarrow> Inr (req, w')))"

fun apply_options :: "RequestOption list \<Rightarrow> StreamRequester \<Rightarrow> world \<Rightarrow> panic + (StreamRequester \<times> world)" where
  "apply_options [] req w = Inr (req, w)"
| "apply_options (opt # opts) req w =
     (case opt req w of
        Inl p \<Rightarrow> Inl p
      | Inr (req', w') \<Rightarrow> apply_options opts req' w')"

definition Client_NewStreamRequest ::
  "Client \<Rightarrow> RequestOption list \<Rightarrow> world \<Rightarrow> panic + (StreamRequester \<times> world)" where
  "Client_NewStreamRequest c opts w =
     (case Header_Clone (dheaders c) w of
        (h, w') \<Rightarrow> apply_options opts \<lparr>cli = c, headers = h, timeout = 0\<rparr> w')"

definition Client_NewRequest ::
  "Client \<Rightarrow> RequestOption list \<Rightarrow> world \<Rightarrow> panic + (Requester \<times> world)" where
  "Client_NewRequest c opts w =
     (case Client_NewStreamRequest c opts w of
        Inl p \<Rightarrow> Inl p
      | Inr (req, w') \<Rightarrow> Inr (\<lparr>core = req\<rparr>, w'))"

definition Client_NewJSONRequest ::
  "(string \<Rightarrow> string) \<Rightarrow> Client \<Rightarrow> RequestOption list \<Rightarrow> world \<Rightarrow> panic + (JSONRequester \<times> world)" where
  "Client_NewJSONRequest canon c opts w =
     (case Client_NewRequest c opts w of
        Inl p \<Rightarrow> Inl p
      | Inr (req, w') \<Rightarrow>
          (case Header_Set canon (headers (core req)) ''Content-Type'' ''application/json'' w' of
             Inl p \<Rightarrow> Inl p
           | Inr w'' \<Rightarrow> Inr (\<lparr>jcore = req\<rparr>, w'')))"

section \<open>Builder operations as data\<close>

text \<open>
  To speak of every header mutator and of every sequence of builder calls, the calls are
  written down as values and applied by the functions below.
\<close>

datatype header_op =
    OpWithHeader string string
  | OpWithUniqueHeader string string
  | OpWithHeaders "(string \<times> string) list"

fun StreamRequester_apply ::
  "(string \<Rightarrow> string) \<Rightarrow> header_op \<Rightarrow> StreamRequester \<Rightarrow> world
     \<Rightarrow> panic + (StreamRequester \<times> world)" where
  "StreamRequester_apply canon (OpWithHeader k v) req w = StreamRequester_WithHeader canon req k v w"
| "StreamRequester_apply canon (OpWithUniqueHeader k v) req w =
     StreamRequester_WithUniqueHeader canon req k v w"
| "StreamRequester_apply canon (OpWithHeaders kvs) req w = StreamRequester_WithHeaders canon req kvs w"

datatype builder_op = HeaderOp header_op | OpWithTimeout int

fun JSONRequester_apply ::
  "(string \<Rightarrow> string) \<Rightarrow> builder_op \<Rightarrow> JSONRequester \<Rightarrow> world
     \<Rightarrow> panic + (JSONRequester \<times> world)" where
  "JSONRequester_apply canon (HeaderOp (OpWithHeader k v)) req w =
     JSONRequester_WithHeader canon req k v w"
| "JSONRequester_apply canon (HeaderOp (OpWithUniqueHeader k v)) req w =
     JSONRequester_WithUniqueHeader canon req k v w"
| "JSONRequester_apply canon (HeaderOp (OpWithHeaders kvs)) req w =
     JSONRequester_WithHeaders canon req kvs w"
| "JSONRequester_apply canon (OpWithTimeout t) req w = Inr (JSONRequester_WithTimeout req t, w)"

fun JSONRequester_apply_all ::
  "(string \<Rightarrow> string) \<Rightarrow> builder_op list \<Rightarrow> JSONRequester \<Rightarrow> world
     \<Rightarrow> panic + (JSONRequester \<times> world)" where
  "JSONRequester_apply_all canon [] req w = Inr (req, w)"
| "JSONRequester_apply_all canon (x # xs) req w =
     (case JSONRequester_apply canon x req w of
        Inl p \<Rightarrow> Inl p
      | Inr (req', w') \<Rightarrow> JSONRequester_apply_all canon xs req' w')"

text \<open>The header keys that a call writes, as the map stores them.\<close>

fun op_keys :: "(string \<Rightarrow> string) \<Rightarrow> builder_op \<Rightarrow> string list" where
  "op_keys canon (HeaderOp (OpWithHeader k v)) = [canon k]"
| "op_keys canon (HeaderOp (OpWithUniqueHeader k v)) = [canon k]"
| "op_keys canon (HeaderOp (OpWithHeaders kvs)) = map (canon \<circ> fst) kvs"
| "op_keys canon (OpWithTimeout t) = []"

text \<open>What a JSON builder answers to \<^verbatim>\<open>Values(k)\<close> on its header bag.\<close>

definition JSONRequester_Values ::
  "(string \<Rightarrow> string) \<Rightarrow> JSONRequester \<Rightarrow> string \<Rightarrow> world \<Rightarrow> string list" where
  "JSONRequester_Values canon req k w = Header_Values canon (headers (core (jcore req))) k w"

section \<open>Concrete values for the examples\<close>

text \<open>The zero values of the exported struct types.\<close>

definition Client_zero :: Client where
  "Client_zero = \<lparr>host = [], conn = None, defaultTimeout = 0, dheaders = None, middlewares = []\<rparr>"

definition StreamRequester_zero :: StreamRequester where
  "StreamRequester_zero = \<lparr>cli = Client_zero, headers = None, timeout = 0\<rparr>"

text \<open>
  An environment with \<^verbatim>\<open>SYSTEM\<close> and \<^verbatim>\<open>COMPONENT\<close> set, as in the package's test; networks
  that answer 200 with the body \<^verbatim>\<open>ok\<close>, that answer 200 with a body that breaks while it is
  read, and that refuse the connection.
\<close>

definition env_example :: environ where
  "env_example =
     \<lparr>USER_AGENT = [], SYSTEM = ''system'', COMPONENT = ''component'', user_Current = None\<rparr>"

definition network_ok :: "ConnOptions \<Rightarrow> hreq \<Rightarrow> world \<Rightarrow> (error + response) \<times> world" where
  "network_ok opts r w = (Inr \<lparr>StatusCode = 200, Body = (''ok'', None)\<rparr>, w)"

definition network_broken_body :: "ConnOptions \<Rightarrow> hreq \<Rightarrow> world \<Rightarrow> (error + response) \<times> world" where
  "network_broken_body opts r w =
     (Inr \<lparr>StatusCode = 200, Body = (''o'', Some (External ''unexpected EOF''))\<rparr>, w)"

definition network_down :: "ConnOptions \<Rightarrow> hreq \<Rightarrow> world \<Rightarrow> (error + response) \<times> world" where
  "network_down opts r w = (Inl (External ''connection refused''), w)"

text \<open>
  A stand-in for \<^verbatim>\<open>http.NewRequestWithContext\<close> in the examples: it refuses a nil context
  and an empty method means GET. The checks of the method and of the URL are left out; the
  examples pass valid ones.
\<close>

definition newRequest_example ::
  "Context option \<Rightarrow> string \<Rightarrow> string \<Rightarrow> string option \<Rightarrow> error + hreq" where
  "newRequest_example ctx meth url body =
     (case ctx of
        None \<Rightarrow> Inl (External ''net/http: nil Context'')
      | Some c \<Rightarrow>
          Inr \<lparr>hr_ctx = c, hr_method = (if meth = [] then ''GET'' else meth), hr_url = url,
               hr_body = body, hr_Header = None\<rparr>)"

text \<open>A stand-in for \<^verbatim>\<open>json.Marshal\<close>: strings are encoded, a channel is refused.\<close>

datatype payload = Str string | Chan

fun marshal_example :: "payload \<Rightarrow> error + string" where
  "marshal_example (Str s) = Inr (CHR 0x22 # s @ [CHR 0x22])"
| "marshal_example Chan = Inl (External ''json: unsupported type: chan int'')"

text \<open>
  The middleware of the package's test \<^verbatim>\<open>client with middlewares\<close>:
  \<^verbatim>\<open>req.Header.Add("mh", "mv"); return req, nil\<close>. Where the Go code would panic (a nil
  request or a nil header map) the model returns an error; the examples never get there.
\<close>

definition middleware_mh :: RequestMiddleware where
  "middleware_mh ctx hreq w =
     (case hreq of
        None \<Rightarrow> ((None, Some (External ''nil request'')), w)
      | Some r \<Rightarrow>
          (case Header_Add CanonicalMIMEHeaderKey (hr_Header r) ''mh'' ''mv'' w of
             Inl p \<Rightarrow> ((None, Some (External ''nil header map'')), w)
           | Inr w' \<Rightarrow> ((Some r, None), w')))"

text \<open>The middleware of the test \<^verbatim>\<open>error\<close>: \<^verbatim>\<open>return req, fmt.Errorf("puff")\<close>.\<close>

definition middleware_puff :: RequestMiddleware where
  "middleware_puff ctx hreq w = ((hreq, Some (External ''puff'')), w)"

text \<open>
  Client options whose header map already has one \<^verbatim>\<open>User-Agent\<close> value, and the world
  that holds that map: what \<^verbatim>\<open>ClientOptions{}.AddHeaders\<close> leaves behind.
\<close>

definition options_example :: ClientOptions where
  "options_example =
     \<lparr>Conn = None, MaxRequestTimeout = 10 * Second, Headers = Some 0, Middlewares = []\<rparr>"

definition world_example :: world where
  "world_example =
     \<lparr>cells = (\<lambda>_. Map.empty)(0 := [''User-Agent'' \<mapsto> [''caller/1.0'']]), fresh = 1, wire = []\<rparr>"

text \<open>
  A client made by \<open>NewCustomClient\<close> from those options, and a stream builder made by that
  client's factory, each with the world it leaves behind.
\<close>

definition client_example :: Client where
  "client_example =
     fst (projr (NewCustomClient CanonicalMIMEHeaderKey network_ok env_example
       ''http://127.0.0.1:8080'' options_example world_example))"

definition world_client :: world where
  "world_client =
     snd (projr (NewCustomClient CanonicalMIMEHeaderKey network_ok env_example
       ''http://127.0.0.1:8080'' options_example world_example))"

definition builder_example :: StreamRequester where
  "builder_example = fst (projr (Client_NewStreamRequest client_example [] world_client))"

definition world_builder :: world where
  "world_builder = snd (projr (Client_NewStreamRequest client_example [] world_client))"

text \<open>A JSON builder made by that client's factory.\<close>

definition json_example :: JSONRequester where
  "json_example =
     fst (projr (Client_NewJSONRequest CanonicalMIMEHeaderKey client_example [] world_client))"

definition world_json :: world where
  "world_json =
     snd (projr (Client_NewJSONRequest CanonicalMIMEHeaderKey client_example [] world_client))"

text \<open>The builder \<open>req\<close> with \<open>ms\<close> as the middlewares registered on its client.\<close>

definition with_middlewares :: "StreamRequester \<Rightarrow> RequestMiddleware list \<Rightarrow> StreamRequester" where
  "with_middlewares req ms = req\<lparr>cli := (cli req)\<lparr>middlewares := ms\<rparr>\<rparr>"

text \<open>
  The same client on any network, the buffered builder of its factory, and the request that
  \<open>Prepare\<close> builds for \<^verbatim>\<open>GET /t02\<close> with an empty body.
\<close>

definition client_on :: "(ConnOptions \<Rightarrow> hreq \<Rightarrow> world \<Rightarrow> (error + response) \<times> world) \<Rightarrow> Client" where
  "client_on network =
     fst (projr (NewCustomClient CanonicalMIMEHeaderKey network env_example
       ''http://127.0.0.1:8080'' options_example world_example))"

definition requester_on :: "(ConnOptions \<Rightarrow> hreq \<Rightarrow> world \<Rightarrow> (error + response) \<times> world) \<Rightarrow> Requester" where
  "requester_on network = fst (projr (Client_NewRequest (client_on network) [] world_client))"

definition request_example :: hreq where
  "request_example =
     \<lparr>hr_ctx = Background, hr_method = ''GET'', hr_url = ''http://127.0.0.1:8080/t02'',
      hr_body = Some [], hr_Header = Some 1\<rparr>"

text \<open>
  The client of the package's test \<^verbatim>\<open>client with middlewares\<close>, whose one middleware adds
  the header \<^verbatim>\<open>mh: mv\<close> to the request it is given; a stream builder of that client's
  factory; the request that \<open>Prepare\<close> builds for \<^verbatim>\<open>GET /\<close>; and what the middleware's
  \<open>Add\<close> does to the map at address 1.
\<close>

definition client_mh :: Client where
  "client_mh =
     fst (projr (NewCustomClient CanonicalMIMEHeaderKey network_ok env_example
       ''http://127.0.0.1:8080'' (options_example\<lparr>Middlewares := [middleware_mh]\<rparr>)
       world_example))"

definition builder_mh :: StreamRequester where
  "builder_mh = fst (projr (Client_NewStreamRequest client_mh [] world_client))"

definition request_root :: hreq where
  "request_root =
     \<lparr>hr_ctx = Background, hr_method = ''GET'', hr_url = ''http://127.0.0.1:8080/'',
      hr_body = None, hr_Header = Some 1\<rparr>"

definition add_mv :: "world \<Rightarrow> world" where
  "add_mv w = w\<lparr>cells := (cells w)(1 := (cells w 1)(''Mh'' \<mapsto>
                 (case cells w 1 ''Mh'' of None \<Rightarrow> [] | Some vs \<Rightarrow> vs) @ [''mv'']))\<rparr>"

section \<open>Results\<close>

subsection \<open>The URL join\<close>

lemma takeWhile_is_slash: "takeWhile is_slash s = replicate (length (takeWhile is_slash s)) CHR ''/''"
proof -
  have "\<forall>c \<in> set (takeWhile is_slash s). c = CHR ''/''"
    by (metis is_slash_def set_takeWhileD)
  then show ?thesis
    by (simp add: replicate_length_same)
qed

lemma leading_split:
  "E = replicate (leading_slashes E) CHR ''/'' @ without_leading_slashes E"
  unfolding leading_slashes_def without_leading_slashes_def
  using takeWhile_is_slash [of E] takeWhile_dropWhile_id [of is_slash E]
  by metis

lemma trailing_split:
  "B = without_trailing_slashes B @ replicate (trailing_slashes B) CHR ''/''"
proof -
  have "rev B = replicate (trailing_slashes B) CHR ''/'' @ dropWhile is_slash (rev B)"
    unfolding trailing_slashes_def
    using takeWhile_is_slash [of "rev B"] takeWhile_dropWhile_id [of is_slash "rev B"]
    by metis
  then have "rev (rev B) = rev (replicate (trailing_slashes B) CHR ''/'' @ dropWhile is_slash (rev B))"
    by simp
  then show ?thesis
    by (simp add: without_trailing_slashes_def)
qed

lemma HasPrefix_slash_leading: "HasPrefix_slash E \<longleftrightarrow> 0 < leading_slashes E"
  by (cases E) (simp_all add: HasPrefix_slash_def leading_slashes_def is_slash_def)

lemma HasSuffix_slash_trailing: "HasSuffix_slash B \<longleftrightarrow> 0 < trailing_slashes B"
proof (cases B rule: rev_cases)
  case Nil
  then show ?thesis by (simp add: HasSuffix_slash_def trailing_slashes_def)
next
  case (snoc xs x)
  then show ?thesis by (simp add: HasSuffix_slash_def trailing_slashes_def is_slash_def)
qed

lemma drop_one_leading:
  assumes "0 < leading_slashes E"
  shows "drop 1 E = replicate (leading_slashes E - 1) CHR ''/'' @ without_leading_slashes E"
proof -
  obtain n where n: "leading_slashes E = Suc n"
    using assms by (cases "leading_slashes E") auto
  have "E = CHR ''/'' # replicate n CHR ''/'' @ without_leading_slashes E"
    using leading_split [of E] n by simp
  then have "drop 1 E = replicate n CHR ''/'' @ without_leading_slashes E"
    by (metis One_nat_def drop0 drop_Suc_Cons)
  with n show ?thesis by simp
qed

lemma combineURL_join:
  "separators_at_join B E (combineURL B E) (join_slashes B E)"
proof -
  let ?t = "trailing_slashes B" and ?l = "leading_slashes E"
  let ?b = "without_trailing_slashes B" and ?e = "without_leading_slashes E"
  have B: "B = ?b @ replicate ?t CHR ''/''" by (rule trailing_split)
  have E: "E = replicate ?l CHR ''/'' @ ?e" by (rule leading_split)
  consider (both) "0 < ?t" "0 < ?l" | (neither) "?t = 0" "?l = 0"
    | (base) "0 < ?t" "?l = 0" | (endpoint) "?t = 0" "0 < ?l"
    by auto
  then show ?thesis
  proof cases
    case both
    then have "combineURL B E = B @ drop 1 E"
      by (simp add: combineURL_def HasSuffix_slash_trailing HasPrefix_slash_leading)
    also have "\<dots> = (?b @ replicate ?t CHR ''/'') @ replicate (?l - 1) CHR ''/'' @ ?e"
      using B drop_one_leading [OF both(2)] by metis
    also have "\<dots> = ?b @ replicate (?t + ?l - 1) CHR ''/'' @ ?e"
      using both by (simp add: replicate_add [symmetric] del: replicate_add)
    finally show ?thesis
      using both by (simp add: separators_at_join_def join_slashes_def)
  next
    case neither
    then have "combineURL B E = B @ ''/'' @ E"
      by (simp add: combineURL_def HasSuffix_slash_trailing HasPrefix_slash_leading)
    moreover have "B = ?b" "E = ?e"
      using B E neither by simp_all
    ultimately show ?thesis
      using neither by (simp add: separators_at_join_def join_slashes_def)
  next
    case base
    then have "combineURL B E = B @ E"
      by (simp add: combineURL_def HasSuffix_slash_trailing HasPrefix_slash_leading)
    moreover have "E = ?e"
      using E base by simp
    ultimately have "combineURL B E = (?b @ replicate ?t CHR ''/'') @ ?e"
      using B by metis
    then show ?thesis
      using base by (simp add: separators_at_join_def join_slashes_def)
  next
    case endpoint
    then have "combineURL B E = B @ E"
      by (simp add: combineURL_def HasSuffix_slash_trailing HasPrefix_slash_leading)
    moreover have "B = ?b"
      using B endpoint by simp
    ultimately have "combineURL B E = ?b @ replicate ?l CHR ''/'' @ ?e"
      using E by metis
    then show ?thesis
      using endpoint by (simp add: separators_at_join_def join_slashes_def)
  qed
qed

lemma separators_at_join_unique:
  "separators_at_join B E R n \<Longrightarrow> separators_at_join B E R m \<Longrightarrow> n = m"
proof -
  assume "separators_at_join B E R n" "separators_at_join B E R m"
  then have "length (without_trailing_slashes B @ replicate n CHR ''/'' @ without_leading_slashes E)
           = length (without_trailing_slashes B @ replicate m CHR ''/'' @ without_leading_slashes E)"
    by (simp add: separators_at_join_def)
  then show "n = m" by simp
qed

lemma join_slashes_one:
  "join_slashes B E = 1 \<longleftrightarrow> trailing_slashes B \<le> 1 \<and> leading_slashes E \<le> 1"
  by (auto simp: join_slashes_def)


text \<open>
  C5 (amended). For all strings \<open>B\<close> and \<open>E\<close>: when \<open>B\<close> ends and \<open>E\<close> starts with a
  slash, \<open>combineURL B E\<close> drops the leading slash of \<open>E\<close>; when neither does, it puts a slash
  in; otherwise it concatenates the two as they are; and the two examples of the specification
  evaluate as it says. The result has exactly one separator at the join when \<open>B\<close> ends with at
  most one slash and \<open>E\<close> starts with at most one, and only then: in general the join holds
  \<open>join_slashes B E\<close> slashes, since every slash beyond the one dropped is kept.
\<close>

theorem combineURL_separators_at_join:
  "separators_at_join B E (combineURL B E) (join_slashes B E)
   \<and> (trailing_slashes B \<le> 1 \<and> leading_slashes E \<le> 1
        \<longrightarrow> separators_at_join B E (combineURL B E) 1)
   \<and> (1 < trailing_slashes B \<or> 1 < leading_slashes E
        \<longrightarrow> \<not> separators_at_join B E (combineURL B E) 1)
   \<and> (HasSuffix_slash B \<and> HasPrefix_slash E \<longrightarrow> combineURL B E = B @ drop 1 E)
   \<and> (\<not> HasSuffix_slash B \<and> \<not> HasPrefix_slash E \<longrightarrow> combineURL B E = B @ ''/'' @ E)
   \<and> (HasSuffix_slash B \<noteq> HasPrefix_slash E \<longrightarrow> combineURL B E = B @ E)
   \<and> combineURL ''https://localhost'' [] = ''https://localhost/''
   \<and> combineURL ''https://localhost/'' ''/'' = ''https://localhost/''"
proof -
  note join = combineURL_join [of B E]
  have one: "separators_at_join B E (combineURL B E) 1"
    if "trailing_slashes B \<le> 1 \<and> leading_slashes E \<le> 1"
    using that join join_slashes_one [of B E] by simp
  have more: "\<not> separators_at_join B E (combineURL B E) 1"
    if "1 < trailing_slashes B \<or> 1 < leading_slashes E"
  proof
    assume "separators_at_join B E (combineURL B E) 1"
    with join have "join_slashes B E = 1"
      by (rule separators_at_join_unique)
    with that show False
      using join_slashes_one [of B E] by auto
  qed
  have rules:
    "(HasSuffix_slash B \<and> HasPrefix_slash E \<longrightarrow> combineURL B E = B @ drop 1 E)
     \<and> (\<not> HasSuffix_slash B \<and> \<not> HasPrefix_slash E \<longrightarrow> combineURL B E = B @ ''/'' @ E)
     \<and> (HasSuffix_slash B \<noteq> HasPrefix_slash E \<longrightarrow> combineURL B E = B @ E)"
    by (auto simp: combineURL_def)
  have ex1: "combineURL ''https://localhost'' [] = ''https://localhost/''"
    by (simp add: combineURL_def HasSuffix_slash_def HasPrefix_slash_def)
  have ex2: "combineURL ''https://localhost/'' ''/'' = ''https://localhost/''"
    by (simp add: combineURL_def HasSuffix_slash_def HasPrefix_slash_def)
  from join one more rules ex1 ex2 show ?thesis
    by blast
qed

lemma slashes_examples:
  "trailing_slashes ''http://localhost/'' = 1" "leading_slashes ''/a'' = 1"
  "trailing_slashes ''http://localhost/a'' = 0" "leading_slashes ''b'' = 0"
  "trailing_slashes ''a//'' = 2" "leading_slashes ''//b'' = 2"
  by (simp_all add: trailing_slashes_def leading_slashes_def is_slash_def)

theorem combineURL_separators_at_join_witness:
  "trailing_slashes ''http://localhost/'' \<le> 1 \<and> leading_slashes ''/a'' \<le> 1
   \<and> HasSuffix_slash ''http://localhost/'' \<and> HasPrefix_slash ''/a''
   \<and> separators_at_join ''http://localhost/'' ''/a'' (combineURL ''http://localhost/'' ''/a'') 1
   \<and> combineURL ''http://localhost/'' ''/a'' = ''http://localhost/a''
   \<and> trailing_slashes ''http://localhost/a'' \<le> 1 \<and> leading_slashes ''b'' \<le> 1
   \<and> \<not> HasSuffix_slash ''http://localhost/a'' \<and> \<not> HasPrefix_slash ''b''
   \<and> separators_at_join ''http://localhost/a'' ''b'' (combineURL ''http://localhost/a'' ''b'') 1
   \<and> combineURL ''http://localhost/a'' ''b'' = ''http://localhost/a/b''
   \<and> HasSuffix_slash ''http://localhost/'' \<noteq> HasPrefix_slash ''b''
   \<and> combineURL ''http://localhost/'' ''b'' = ''http://localhost/b''
   \<and> 1 < trailing_slashes ''a//''
   \<and> \<not> separators_at_join ''a//'' ''b'' (combineURL ''a//'' ''b'') 1"
proof -
  have h: "HasSuffix_slash ''http://localhost/''" "HasPrefix_slash ''/a''"
    "\<not> HasSuffix_slash ''http://localhost/a''" "\<not> HasPrefix_slash ''b''"
    by (simp_all add: HasSuffix_slash_def HasPrefix_slash_def)
  have n: "trailing_slashes ''http://localhost/'' \<le> 1 \<and> leading_slashes ''/a'' \<le> 1"
    "trailing_slashes ''http://localhost/a'' \<le> 1 \<and> leading_slashes ''b'' \<le> 1"
    "1 < trailing_slashes ''a//''"
    using slashes_examples by simp_all
  note both = combineURL_separators_at_join [of "''http://localhost/''" "''/a''"]
  note neither = combineURL_separators_at_join [of "''http://localhost/a''" "''b''"]
  note base = combineURL_separators_at_join [of "''http://localhost/''" "''b''"]
  note extra = combineURL_separators_at_join [of "''a//''" "''b''"]
  have a1: "separators_at_join ''http://localhost/'' ''/a''
              (combineURL ''http://localhost/'' ''/a'') 1"
    using both n(1) by blast
  have a2: "combineURL ''http://localhost/'' ''/a'' = ''http://localhost/a''"
  proof -
    from both h(1,2) have "combineURL ''http://localhost/'' ''/a'' = ''http://localhost/'' @ drop 1 ''/a''"
      by blast
    then show ?thesis by simp
  qed
  have b1: "separators_at_join ''http://localhost/a'' ''b''
              (combineURL ''http://localhost/a'' ''b'') 1"
    using neither n(2) by blast
  have b2: "combineURL ''http://localhost/a'' ''b'' = ''http://localhost/a/b''"
  proof -
    from neither h(3,4) have "combineURL ''http://localhost/a'' ''b'' = ''http://localhost/a'' @ ''/'' @ ''b''"
      by blast
    then show ?thesis by simp
  qed
  have c1: "HasSuffix_slash ''http://localhost/'' \<noteq> HasPrefix_slash ''b''"
    using h(1,4) by simp
  have c2: "combineURL ''http://localhost/'' ''b'' = ''http://localhost/b''"
  proof -
    from base c1 have "combineURL ''http://localhost/'' ''b'' = ''http://localhost/'' @ ''b''"
      by blast
    then show ?thesis by simp
  qed
  have d: "\<not> separators_at_join ''a//'' ''b'' (combineURL ''a//'' ''b'') 1"
    using extra n(3) by blast
  from h n a1 a2 b1 b2 c1 c2 d show ?thesis
    by blast
qed

text \<open>
  C5 as stated fails on a base or an endpoint with more than one slash at the join: the code
  looks at one character on each side. The base \<^verbatim>\<open>a//\<close> joined with \<^verbatim>\<open>//b\<close> has three
  separators at the join, and joined with \<^verbatim>\<open>b\<close> it has two.
\<close>

theorem combineURL_keeps_extra_slashes:
  "combineURL ''a//'' ''//b'' = ''a///b''
   \<and> combineURL ''a//'' ''b'' = ''a//b''
   \<and> separators_at_join ''a//'' ''//b'' (combineURL ''a//'' ''//b'') 3
   \<and> \<not> separators_at_join ''a//'' ''//b'' (combineURL ''a//'' ''//b'') 1
   \<and> separators_at_join ''a//'' ''b'' (combineURL ''a//'' ''b'') 2
   \<and> \<not> separators_at_join ''a//'' ''b'' (combineURL ''a//'' ''b'') 1"
  by (simp add: combineURL_def HasSuffix_slash_def HasPrefix_slash_def separators_at_join_def
      without_trailing_slashes_def without_leading_slashes_def is_slash_def
      numeral_2_eq_2 numeral_3_eq_3)

subsection \<open>Facts about the concrete values\<close>

lemma canon_User_Agent: "CanonicalMIMEHeaderKey ''User-Agent'' = ''User-Agent''"
  by code_simp

lemma userAgent_env_example: "userAgent env_example = ''go-webservice/v0/system/component''"
  by (simp add: userAgent_def env_example_def httpAgentPrefix_def)

lemma AddHeaders_example:
  "ClientOptions_AddHeaders CanonicalMIMEHeaderKey
     \<lparr>Conn = None, MaxRequestTimeout = 10 * Second, Headers = None, Middlewares = []\<rparr>
     [(''User-Agent'', ''caller/1.0'')] world0 = Inr (options_example, world_example)"
  by (simp add: ClientOptions_AddHeaders_def make_Header_def world0_def Header_Add_def
      Header_Values_def hmap_def canon_User_Agent options_example_def world_example_def)

subsection \<open>The client's default headers\<close>

lemma ClientOptions_sanitize_Headers:
  "ClientOptions_sanitize network options w = (options', w') \<Longrightarrow>
     Conn options' \<noteq> None \<and> Middlewares options' = Middlewares options \<and> wire w' = wire w \<and>
     (case Headers options of
        Some a \<Rightarrow> Headers options' = Some a \<and> w' = w
      | None \<Rightarrow> Headers options' = Some (fresh w) \<and> fresh w' = Suc (fresh w)
                \<and> cells w' = (cells w)(fresh w := Map.empty))"
  by (auto simp: ClientOptions_sanitize_def Let_def make_Header_def
      split: option.splits if_splits)

text \<open>
  C10. \<open>NewCustomClient\<close> adds the derived user agent with \<open>Add\<close>: whatever the options
  are, it returns a client whose default headers hold, under \<^verbatim>\<open>User-Agent\<close>, the values the
  options' header map held there followed by the derived value, so \<open>n + 1\<close> values when the
  options had \<open>n\<close>. When the caller supplied a header map, the client holds that very map
  (no new map is made), and the caller's map shows the added value.
\<close>

theorem NewCustomClient_appends_User_Agent:
  "\<exists>c w'. NewCustomClient canon network env h options w = Inr (c, w')
     \<and> Header_Values canon (dheaders c) ''User-Agent'' w'
         = Header_Values canon (Headers options) ''User-Agent'' w @ [userAgent env]
     \<and> length (Header_Values canon (dheaders c) ''User-Agent'' w')
         = Suc (length (Header_Values canon (Headers options) ''User-Agent'' w))
     \<and> (\<forall>a. Headers options = Some a \<longrightarrow>
           dheaders c = Headers options \<and> fresh w' = fresh w
           \<and> Header_Values canon (Headers options) ''User-Agent'' w'
               = Header_Values canon (Headers options) ''User-Agent'' w @ [userAgent env])"
proof -
  obtain options' w1 where s: "ClientOptions_sanitize network options w = (options', w1)"
    by (cases "ClientOptions_sanitize network options w")
  note f = ClientOptions_sanitize_Headers [OF s]
  from f obtain cn where cn: "Conn options' = Some cn" by auto
  show ?thesis
  proof (cases "Headers options")
    case None
    with f have h: "Headers options' = Some (fresh w)" "cells w1 = (cells w)(fresh w := Map.empty)"
      by auto
    show ?thesis
      using None h cn
      by (simp add: NewCustomClient_def s Let_def Header_Add_def Header_Values_def hmap_def)
  next
    case (Some a)
    with f have h: "Headers options' = Some a" "w1 = w"
      by auto
    show ?thesis
      using Some h cn
      by (simp add: NewCustomClient_def s Let_def Header_Add_def Header_Values_def hmap_def)
  qed
qed

theorem NewCustomClient_appends_User_Agent_witness:
  "Headers options_example = Some 0
   \<and> Header_Values CanonicalMIMEHeaderKey (Some 0) ''User-Agent'' world_example = [''caller/1.0'']
   \<and> (\<exists>c w'. NewCustomClient CanonicalMIMEHeaderKey network_ok env_example
               ''http://127.0.0.1:8080'' options_example world_example = Inr (c, w')
         \<and> dheaders c = Some 0
         \<and> Header_Values CanonicalMIMEHeaderKey (Some 0) ''User-Agent'' w'
             = [''caller/1.0'', ''go-webservice/v0/system/component''])"
proof -
  have h: "Headers options_example = Some 0"
    by (simp add: options_example_def)
  have v: "Header_Values CanonicalMIMEHeaderKey (Some 0) ''User-Agent'' world_example = [''caller/1.0'']"
    by (simp add: Header_Values_def hmap_def world_example_def canon_User_Agent)
  show ?thesis
    using h v userAgent_env_example
      NewCustomClient_appends_User_Agent [of CanonicalMIMEHeaderKey network_ok env_example
        "''http://127.0.0.1:8080''" options_example world_example]
    by auto
qed

subsection \<open>More facts about the concrete values\<close>

lemma NewCustomClient_example:
  "NewCustomClient CanonicalMIMEHeaderKey network_ok env_example ''http://127.0.0.1:8080''
     options_example world_example = Inr (client_example, world_client)
   \<and> dheaders client_example = Some 0 \<and> conn client_example \<noteq> None
   \<and> middlewares client_example = [] \<and> host client_example = ''http://127.0.0.1:8080''
   \<and> fresh world_client = 1 \<and> wire world_client = []
   \<and> cells world_client 0 = [''User-Agent'' \<mapsto> [''caller/1.0'', ''go-webservice/v0/system/component'']]"
  unfolding client_example_def world_client_def
  by (simp add: NewCustomClient_def ClientOptions_sanitize_def Let_def Header_Add_def
      Header_Values_def hmap_def options_example_def world_example_def Second_def
      canon_User_Agent userAgent_env_example)

lemma NewStreamRequest_example:
  "Client_NewStreamRequest client_example [] world_client = Inr (builder_example, world_builder)
   \<and> headers builder_example = Some 1 \<and> cli builder_example = client_example
   \<and> timeout builder_example = 0
   \<and> fresh world_builder = 2 \<and> wire world_builder = []
   \<and> cells world_builder 1 = [''User-Agent'' \<mapsto> [''caller/1.0'', ''go-webservice/v0/system/component'']]"
  unfolding builder_example_def world_builder_def
  using NewCustomClient_example
  by (simp add: Client_NewStreamRequest_def Header_Clone_def)

subsection \<open>Clone independence of the header mutators\<close>

lemma Header_Set_each_Some:
  "\<exists>w'. Header_Set_each canon (Some a) kvs w = Inr w' \<and> fresh w' = fresh w \<and> wire w' = wire w
        \<and> (\<forall>b. b \<noteq> a \<longrightarrow> cells w' b = cells w b)
        \<and> (\<forall>k. k \<notin> set (map (canon \<circ> fst) kvs) \<longrightarrow> cells w' a k = cells w a k)"
proof (induction kvs arbitrary: w)
  case Nil
  show ?case by simp
next
  case (Cons kv kvs)
  obtain k v where kv: "kv = (k, v)" by (cases kv)
  let ?w1 = "w\<lparr>cells := (cells w)(a := (cells w a)(canon k \<mapsto> [v]))\<rparr>"
  from Cons.IH [of ?w1] obtain w' where
    w': "Header_Set_each canon (Some a) kvs ?w1 = Inr w'" "fresh w' = fresh ?w1" "wire w' = wire ?w1"
      "\<forall>b. b \<noteq> a \<longrightarrow> cells w' b = cells ?w1 b"
      "\<forall>k. k \<notin> set (map (canon \<circ> fst) kvs) \<longrightarrow> cells w' a k = cells ?w1 a k"
    by blast
  show ?case
    using w' by (simp add: kv Header_Set_def)
qed

lemma StreamRequester_apply_clones:
  assumes "headers B = Some a"
  shows "\<exists>B' w'. StreamRequester_apply canon x B w = Inr (B', w')
           \<and> headers B' = Some (fresh w) \<and> cli B' = cli B \<and> timeout B' = timeout B
           \<and> fresh w' = Suc (fresh w) \<and> wire w' = wire w
           \<and> (\<forall>b. b \<noteq> fresh w \<longrightarrow> cells w' b = cells w b)"
proof (cases x)
  case (OpWithHeader k v)
  then show ?thesis
    using assms
    by (simp add: StreamRequester_WithHeader_def StreamRequester_Clone_def Header_Clone_def
        Header_Add_def)
next
  case (OpWithUniqueHeader k v)
  then show ?thesis
    using assms
    by (simp add: StreamRequester_WithUniqueHeader_def StreamRequester_Clone_def Header_Clone_def
        Header_Set_def)
next
  case (OpWithHeaders kvs)
  let ?w1 = "w\<lparr>cells := (cells w)(fresh w := cells w a), fresh := Suc (fresh w)\<rparr>"
  obtain w' where
    w': "Header_Set_each canon (Some (fresh w)) kvs ?w1 = Inr w'" "fresh w' = fresh ?w1"
      "wire w' = wire ?w1" "\<forall>b. b \<noteq> fresh w \<longrightarrow> cells w' b = cells ?w1 b"
    using Header_Set_each_Some [of canon "fresh w" kvs ?w1] by blast
  show ?thesis
    using assms w'
    by (simp add: OpWithHeaders StreamRequester_WithHeaders_def StreamRequester_Clone_def
        Header_Clone_def)
qed

text \<open>
  C1 (amended). For every stream builder \<open>B\<close> whose header bag is a map (not nil) that exists
  in the store, and every header mutator (\<open>WithHeader\<close>, \<open>WithUniqueHeader\<close>,
  \<open>WithHeaders\<close>): the call returns a new builder \<open>B1\<close> with a header map of its own and the
  client and timeout of \<open>B\<close>; no header map that existed before the call is changed, so the
  header values of \<open>B\<close> are what they were. Two builders \<open>B1\<close> and \<open>B2\<close> derived from \<open>B\<close>
  hold different maps, and a later mutator call on either changes neither the other's header
  values nor those of \<open>B\<close>.
\<close>

theorem header_mutators_clone_independence:
  assumes "headers B = Some a" and "a < fresh w"
  shows "\<exists>B1 w1. StreamRequester_apply canon x B w = Inr (B1, w1)
           \<and> hmap (headers B) w1 = hmap (headers B) w
           \<and> headers B1 \<noteq> headers B \<and> cli B1 = cli B \<and> timeout B1 = timeout B
           \<and> (\<forall>b. b < fresh w \<longrightarrow> cells w1 b = cells w b)
           \<and> (\<exists>B2 w2. StreamRequester_apply canon y B w1 = Inr (B2, w2)
                \<and> headers B2 \<noteq> headers B1 \<and> headers B2 \<noteq> headers B
                \<and> hmap (headers B) w2 = hmap (headers B) w
                \<and> hmap (headers B1) w2 = hmap (headers B1) w1
                \<and> (\<exists>B1' w3. StreamRequester_apply canon z B1 w2 = Inr (B1', w3)
                      \<and> hmap (headers B2) w3 = hmap (headers B2) w2
                      \<and> hmap (headers B1) w3 = hmap (headers B1) w1
                      \<and> hmap (headers B) w3 = hmap (headers B) w)
                \<and> (\<exists>B2' w3. StreamRequester_apply canon z B2 w2 = Inr (B2', w3)
                      \<and> hmap (headers B1) w3 = hmap (headers B1) w1
                      \<and> hmap (headers B2) w3 = hmap (headers B2) w2
                      \<and> hmap (headers B) w3 = hmap (headers B) w))"
proof -
  from StreamRequester_apply_clones [OF assms(1), of canon x w] obtain B1 w1 where
    1: "StreamRequester_apply canon x B w = Inr (B1, w1)" "headers B1 = Some (fresh w)"
      "cli B1 = cli B" "timeout B1 = timeout B" "fresh w1 = Suc (fresh w)"
      "\<forall>b. b \<noteq> fresh w \<longrightarrow> cells w1 b = cells w b"
    by blast
  from StreamRequester_apply_clones [OF assms(1), of canon y w1] obtain B2 w2 where
    2: "StreamRequester_apply canon y B w1 = Inr (B2, w2)" "headers B2 = Some (fresh w1)"
      "fresh w2 = Suc (fresh w1)" "\<forall>b. b \<noteq> fresh w1 \<longrightarrow> cells w2 b = cells w1 b"
    by blast
  from StreamRequester_apply_clones [OF 1(2), of canon z w2] obtain B1' w3 where
    3: "StreamRequester_apply canon z B1 w2 = Inr (B1', w3)"
      "\<forall>b. b \<noteq> fresh w2 \<longrightarrow> cells w3 b = cells w2 b"
    by blast
  from StreamRequester_apply_clones [OF 2(2), of canon z w2] obtain B2' w3' where
    4: "StreamRequester_apply canon z B2 w2 = Inr (B2', w3')"
      "\<forall>b. b \<noteq> fresh w2 \<longrightarrow> cells w3' b = cells w2 b"
    by blast
  show ?thesis
    using assms 1 2 3 4 by (simp add: hmap_def)
qed


theorem header_mutators_clone_independence_witness:
  "headers builder_example = Some 1 \<and> 1 < fresh world_builder
   \<and> (\<exists>B1 w1. StreamRequester_apply CanonicalMIMEHeaderKey (OpWithHeader ''h1'' ''v1'')
                  builder_example world_builder = Inr (B1, w1)
         \<and> hmap (headers builder_example) w1 = hmap (headers builder_example) world_builder
         \<and> headers B1 \<noteq> headers builder_example
         \<and> (\<exists>B2 w2. StreamRequester_apply CanonicalMIMEHeaderKey (OpWithUniqueHeader ''h1'' ''v2'')
                        builder_example w1 = Inr (B2, w2)
               \<and> headers B2 \<noteq> headers B1
               \<and> (\<exists>B1' w3. StreamRequester_apply CanonicalMIMEHeaderKey
                               (OpWithHeaders [(''h2'', ''v3'')]) B1 w2 = Inr (B1', w3)
                     \<and> hmap (headers B2) w3 = hmap (headers B2) w2
                     \<and> hmap (headers builder_example) w3
                         = hmap (headers builder_example) world_builder)))"
proof -
  have h1: "headers builder_example = Some 1"
    using NewStreamRequest_example by simp
  have h2: "1 < fresh world_builder"
    using NewStreamRequest_example by simp
  show ?thesis
    using h1 h2
      header_mutators_clone_independence [OF h1 h2, of CanonicalMIMEHeaderKey
        "OpWithHeader ''h1'' ''v1''" "OpWithUniqueHeader ''h1'' ''v2''"
        "OpWithHeaders [(''h2'', ''v3'')]"]
    by blast
qed

text \<open>
  C1 as stated fails on a builder without a header map. The builder that the factory of a
  zero-value \<^verbatim>\<open>Client\<close> makes is the zero-value builder:
  its header bag is the nil map, which \<open>Clone\<close> leaves nil. \<open>WithHeader\<close> on it returns no
  builder: the write to the nil map panics.
\<close>

theorem zero_builder_WithHeader_panics:
  "Client_NewStreamRequest Client_zero [] world0 = Inr (StreamRequester_zero, world0)
   \<and> StreamRequester_apply CanonicalMIMEHeaderKey (OpWithHeader ''h1'' ''v1'')
        StreamRequester_zero world0 = Inl NilMapAssignment"
  by (simp add: Client_NewStreamRequest_def Client_zero_def StreamRequester_zero_def
      Header_Clone_def StreamRequester_WithHeader_def StreamRequester_Clone_def Header_Add_def)

subsection \<open>Appending and replacing\<close>

lemma StreamRequester_WithHeader_Values:
  assumes "headers B = Some a"
  shows "\<exists>B' w'. StreamRequester_WithHeader canon B k v w = Inr (B', w')
           \<and> headers B' = Some (fresh w)
           \<and> Header_Values canon (headers B') k w' = Header_Values canon (headers B) k w @ [v]"
  using assms
  by (simp add: StreamRequester_WithHeader_def StreamRequester_Clone_def Header_Clone_def
      Header_Add_def Header_Values_def hmap_def)

lemma StreamRequester_WithUniqueHeader_Values:
  assumes "headers B = Some a"
  shows "\<exists>B' w'. StreamRequester_WithUniqueHeader canon B k v w = Inr (B', w')
           \<and> headers B' = Some (fresh w)
           \<and> Header_Values canon (headers B') k w' = [v]"
  using assms
  by (simp add: StreamRequester_WithUniqueHeader_def StreamRequester_Clone_def Header_Clone_def
      Header_Set_def Header_Values_def hmap_def)

text \<open>
  C9 (amended). For every stream builder \<open>B\<close> whose header bag is a map (not nil), every key
  \<open>k\<close> and all values: \<open>WithHeader k v\<close> returns a builder whose value list for \<open>k\<close> is
  that of \<open>B\<close> with \<open>v\<close> appended, one longer (and two calls append both values in order);
  \<open>WithUniqueHeader k v\<close> returns a builder whose value list for \<open>k\<close> is exactly \<open>[v]\<close>,
  however many values \<open>k\<close> had, so after two such calls, or after a \<open>WithHeader\<close> and then a
  \<open>WithUniqueHeader\<close>, it holds the latest value alone.
\<close>

theorem WithHeader_appends_WithUniqueHeader_replaces:
  assumes "headers B = Some a"
  shows "(\<exists>B' w'. StreamRequester_WithHeader canon B k v w = Inr (B', w')
            \<and> Header_Values canon (headers B') k w' = Header_Values canon (headers B) k w @ [v]
            \<and> length (Header_Values canon (headers B') k w')
                = Suc (length (Header_Values canon (headers B) k w)))
       \<and> (\<exists>B' w'. StreamRequester_WithUniqueHeader canon B k v w = Inr (B', w')
            \<and> Header_Values canon (headers B') k w' = [v]
            \<and> length (Header_Values canon (headers B') k w') = 1)
       \<and> (\<exists>B1 w1 B2 w2. StreamRequester_WithHeader canon B k v1 w = Inr (B1, w1)
            \<and> StreamRequester_WithHeader canon B1 k v2 w1 = Inr (B2, w2)
            \<and> Header_Values canon (headers B2) k w2
                = Header_Values canon (headers B) k w @ [v1, v2])
       \<and> (\<exists>B1 w1 B2 w2. StreamRequester_WithUniqueHeader canon B k v1 w = Inr (B1, w1)
            \<and> StreamRequester_WithUniqueHeader canon B1 k v2 w1 = Inr (B2, w2)
            \<and> Header_Values canon (headers B2) k w2 = [v2])
       \<and> (\<exists>B1 w1 B2 w2. StreamRequester_WithHeader canon B k v1 w = Inr (B1, w1)
            \<and> StreamRequester_WithUniqueHeader canon B1 k v2 w1 = Inr (B2, w2)
            \<and> Header_Values canon (headers B2) k w2 = [v2])"
proof -
  from StreamRequester_WithHeader_Values [OF assms, of canon k v w]
  have a: "\<exists>B' w'. StreamRequester_WithHeader canon B k v w = Inr (B', w')
            \<and> Header_Values canon (headers B') k w' = Header_Values canon (headers B) k w @ [v]
            \<and> length (Header_Values canon (headers B') k w')
                = Suc (length (Header_Values canon (headers B) k w))"
    by auto
  from StreamRequester_WithUniqueHeader_Values [OF assms, of canon k v w]
  have b: "\<exists>B' w'. StreamRequester_WithUniqueHeader canon B k v w = Inr (B', w')
            \<and> Header_Values canon (headers B') k w' = [v]
            \<and> length (Header_Values canon (headers B') k w') = 1"
    by auto
  from StreamRequester_WithHeader_Values [OF assms, of canon k v1 w] obtain B1 w1 where
    1: "StreamRequester_WithHeader canon B k v1 w = Inr (B1, w1)" "headers B1 = Some (fresh w)"
      "Header_Values canon (headers B1) k w1 = Header_Values canon (headers B) k w @ [v1]"
    by blast
  from StreamRequester_WithHeader_Values [OF 1(2), of canon k v2 w1] 1
  have c: "\<exists>B1 w1 B2 w2. StreamRequester_WithHeader canon B k v1 w = Inr (B1, w1)
            \<and> StreamRequester_WithHeader canon B1 k v2 w1 = Inr (B2, w2)
            \<and> Header_Values canon (headers B2) k w2
                = Header_Values canon (headers B) k w @ [v1, v2]"
    by auto
  from StreamRequester_WithUniqueHeader_Values [OF 1(2), of canon k v2 w1] 1
  have e: "\<exists>B1 w1 B2 w2. StreamRequester_WithHeader canon B k v1 w = Inr (B1, w1)
            \<and> StreamRequester_WithUniqueHeader canon B1 k v2 w1 = Inr (B2, w2)
            \<and> Header_Values canon (headers B2) k w2 = [v2]"
    by auto
  from StreamRequester_WithUniqueHeader_Values [OF assms, of canon k v1 w] obtain B1' w1' where
    2: "StreamRequester_WithUniqueHeader canon B k v1 w = Inr (B1', w1')"
      "headers B1' = Some (fresh w)"
    by blast
  from StreamRequester_WithUniqueHeader_Values [OF 2(2), of canon k v2 w1'] 2
  have d: "\<exists>B1 w1 B2 w2. StreamRequester_WithUniqueHeader canon B k v1 w = Inr (B1, w1)
            \<and> StreamRequester_WithUniqueHeader canon B1 k v2 w1 = Inr (B2, w2)
            \<and> Header_Values canon (headers B2) k w2 = [v2]"
    by auto
  from a b c d e show ?thesis by blast
qed

theorem WithHeader_appends_WithUniqueHeader_replaces_witness:
  "headers builder_example = Some 1
   \<and> (\<exists>B1 w1 B2 w2. StreamRequester_WithHeader CanonicalMIMEHeaderKey builder_example
                        ''User-Agent'' ''v1'' world_builder = Inr (B1, w1)
         \<and> StreamRequester_WithHeader CanonicalMIMEHeaderKey B1 ''User-Agent'' ''v2'' w1 = Inr (B2, w2)
         \<and> Header_Values CanonicalMIMEHeaderKey (headers B2) ''User-Agent'' w2
             = [''caller/1.0'', ''go-webservice/v0/system/component'', ''v1'', ''v2''])
   \<and> (\<exists>B' w'. StreamRequester_WithUniqueHeader CanonicalMIMEHeaderKey builder_example
                  ''User-Agent'' ''v3'' world_builder = Inr (B', w')
         \<and> Header_Values CanonicalMIMEHeaderKey (headers B') ''User-Agent'' w' = [''v3''])"
proof -
  have h1: "headers builder_example = Some 1"
    using NewStreamRequest_example by simp
  have v: "Header_Values CanonicalMIMEHeaderKey (headers builder_example) ''User-Agent'' world_builder
             = [''caller/1.0'', ''go-webservice/v0/system/component'']"
    using NewStreamRequest_example by (simp add: Header_Values_def hmap_def canon_User_Agent)
  show ?thesis
    using h1 v
      WithHeader_appends_WithUniqueHeader_replaces [OF h1, of CanonicalMIMEHeaderKey
        "''User-Agent''" "''v3''" world_builder "''v1''" "''v2''"]
    by auto
qed

text \<open>
  C9 as stated fails on a builder without a header map: on the zero-value builder
  \<open>WithUniqueHeader\<close> returns no builder, because the header bag is the nil map and \<open>Set\<close> on
  it panics.
\<close>

theorem zero_builder_WithUniqueHeader_panics:
  "StreamRequester_WithUniqueHeader CanonicalMIMEHeaderKey StreamRequester_zero ''h2'' ''v1'' world0
     = Inl NilMapAssignment"
  by (simp add: StreamRequester_zero_def StreamRequester_WithUniqueHeader_def
      StreamRequester_Clone_def Header_Clone_def Header_Set_def)

subsection \<open>The context of a call\<close>

text \<open>
  C3 (amended). For every builder: \<open>Context\<close> takes the background context for a nil parent;
  when the builder's timeout is positive it returns what \<^verbatim>\<open>context.WithTimeout\<close> makes of the
  parent and that timeout, the derived context together with its cancel function; otherwise it
  returns the parent itself together with a nil cancel function, not a function that does
  nothing.
\<close>

theorem Context_wraps_or_returns_nil_cancel:
  "StreamRequester_Context req None = StreamRequester_Context req (Some Background)
   \<and> (0 < timeout req \<longrightarrow>
        StreamRequester_Context req (Some parent)
          = (fst (context_WithTimeout parent (timeout req)),
             Some (snd (context_WithTimeout parent (timeout req))))
        \<and> fst (StreamRequester_Context req (Some parent)) = WithTimeout parent (timeout req))
   \<and> (timeout req \<le> 0 \<longrightarrow> StreamRequester_Context req (Some parent) = (parent, None))"
proof -
  have nil_parent:
    "StreamRequester_Context req None = StreamRequester_Context req (Some Background)"
    by (simp add: StreamRequester_Context_def)
  have positive:
    "StreamRequester_Context req (Some parent)
       = (fst (context_WithTimeout parent (timeout req)),
          Some (snd (context_WithTimeout parent (timeout req))))
     \<and> fst (StreamRequester_Context req (Some parent)) = WithTimeout parent (timeout req)"
    if "0 < timeout req"
    using that by (simp add: StreamRequester_Context_def context_WithTimeout_def)
  have unset: "StreamRequester_Context req (Some parent) = (parent, None)"
    if "timeout req \<le> 0"
    using that by (simp add: StreamRequester_Context_def)
  from nil_parent positive unset show ?thesis
    by blast
qed

theorem Context_wraps_or_returns_nil_cancel_witness:
  "0 < timeout (StreamRequester_WithTimeout builder_example (5 * Second))
   \<and> StreamRequester_Context (StreamRequester_WithTimeout builder_example (5 * Second)) (Some TODO)
       = (WithTimeout TODO 5000000000, Some (CancelOf (WithTimeout TODO 5000000000)))
   \<and> timeout builder_example \<le> 0
   \<and> StreamRequester_Context builder_example (Some TODO) = (TODO, None)"
proof -
  have t: "timeout builder_example = 0"
    using NewStreamRequest_example by simp
  have t5: "timeout (StreamRequester_WithTimeout builder_example (5 * Second)) = 5000000000"
    by (simp add: StreamRequester_WithTimeout_def Second_def)
  show ?thesis
    using t t5
      Context_wraps_or_returns_nil_cancel
        [of "StreamRequester_WithTimeout builder_example (5 * Second)" TODO]
      Context_wraps_or_returns_nil_cancel [of builder_example TODO]
    by (simp add: context_WithTimeout_def)
qed

text \<open>
  C3 as stated fails where it promises a cancel function that does nothing, and on a nil
  parent. A builder fresh from the factory has no timeout. With a parent, \<open>Context\<close> returns it with
  no cancel function at all (nil, which panics when called); without one, it returns the
  background context, not the nil parent.
\<close>

theorem Context_without_timeout_has_no_cancel:
  "StreamRequester_Context builder_example (Some TODO) = (TODO, None)
   \<and> StreamRequester_Context builder_example None = (Background, None)"
  using NewStreamRequest_example by (simp add: StreamRequester_Context_def)

subsection \<open>The content type of a JSON builder\<close>

lemma canon_Content_Type: "CanonicalMIMEHeaderKey ''Content-Type'' = ''Content-Type''"
  by code_simp

lemma canon_h1: "CanonicalMIMEHeaderKey ''h1'' = ''H1''"
  by code_simp

lemma canon_h2: "CanonicalMIMEHeaderKey ''h2'' = ''H2''"
  by code_simp

lemma NewJSONRequest_example:
  "Client_NewJSONRequest CanonicalMIMEHeaderKey client_example [] world_client
     = Inr (json_example, world_json)
   \<and> headers (core (jcore json_example)) = Some 1
   \<and> fresh world_json = 2
   \<and> cells world_json 1 ''Content-Type'' = Some [''application/json'']"
  unfolding json_example_def world_json_def
  using NewStreamRequest_example
  by (simp add: Client_NewJSONRequest_def Client_NewRequest_def Header_Set_def canon_Content_Type)

lemma JSONRequester_apply_keeps:
  assumes "headers (core (jcore r)) = Some a"
    and "canon key \<notin> set (op_keys canon x)"
  shows "\<exists>r' w' a'. JSONRequester_apply canon x r w = Inr (r', w')
           \<and> headers (core (jcore r')) = Some a'
           \<and> JSONRequester_Values canon r' key w' = JSONRequester_Values canon r key w"
proof (cases x)
  case (OpWithTimeout t)
  then show ?thesis
    using assms
    by (simp add: JSONRequester_WithTimeout_def Requester_WithTimeout_def
        StreamRequester_WithTimeout_def JSONRequester_Values_def)
next
  case (HeaderOp hx)
  show ?thesis
  proof (cases hx)
    case (OpWithHeader k v)
    then show ?thesis
      using assms HeaderOp
      by (simp add: JSONRequester_WithHeader_def Requester_WithHeader_def
          StreamRequester_WithHeader_def StreamRequester_Clone_def Header_Clone_def
          Header_Add_def JSONRequester_Values_def Header_Values_def hmap_def)
  next
    case (OpWithUniqueHeader k v)
    then show ?thesis
      using assms HeaderOp
      by (simp add: JSONRequester_WithUniqueHeader_def Requester_WithUniqueHeader_def
          StreamRequester_WithUniqueHeader_def StreamRequester_Clone_def Header_Clone_def
          Header_Set_def JSONRequester_Values_def Header_Values_def hmap_def)
  next
    case (OpWithHeaders kvs)
    let ?w1 = "w\<lparr>cells := (cells w)(fresh w := cells w a), fresh := Suc (fresh w)\<rparr>"
    obtain w' where
      w': "Header_Set_each canon (Some (fresh w)) kvs ?w1 = Inr w'"
        "\<forall>k. k \<notin> set (map (canon \<circ> fst) kvs) \<longrightarrow> cells w' (fresh w) k = cells ?w1 (fresh w) k"
      using Header_Set_each_Some [of canon "fresh w" kvs ?w1] by blast
    from assms(2) HeaderOp OpWithHeaders have "canon key \<notin> set (map (canon \<circ> fst) kvs)"
      by simp
    with w'(2) have "cells w' (fresh w) (canon key) = cells w a (canon key)"
      by simp
    then show ?thesis
      using assms(1) HeaderOp OpWithHeaders w'(1)
      by (simp add: JSONRequester_WithHeaders_def Requester_WithHeaders_def
          StreamRequester_WithHeaders_def StreamRequester_Clone_def Header_Clone_def
          JSONRequester_Values_def Header_Values_def hmap_def)
  qed
qed

lemma JSONRequester_apply_all_keeps:
  assumes "headers (core (jcore r)) = Some a"
    and "\<forall>x \<in> set xs. canon key \<notin> set (op_keys canon x)"
  shows "\<exists>r' w'. JSONRequester_apply_all canon xs r w = Inr (r', w')
           \<and> JSONRequester_Values canon r' key w' = JSONRequester_Values canon r key w"
  using assms
proof (induction xs arbitrary: r a w)
  case Nil
  show ?case by simp
next
  case (Cons x xs)
  from Cons.prems have k: "canon key \<notin> set (op_keys canon x)" by simp
  from JSONRequester_apply_keeps [OF Cons.prems(1) k, of w] obtain r1 w1 a1 where
    1: "JSONRequester_apply canon x r w = Inr (r1, w1)" "headers (core (jcore r1)) = Some a1"
      "JSONRequester_Values canon r1 key w1 = JSONRequester_Values canon r key w"
    by blast
  from Cons.prems have "\<forall>x \<in> set xs. canon key \<notin> set (op_keys canon x)" by simp
  from Cons.IH [OF 1(2) this, of w1] obtain r' w' where
    "JSONRequester_apply_all canon xs r1 w1 = Inr (r', w')"
    "JSONRequester_Values canon r' key w' = JSONRequester_Values canon r1 key w1"
    by blast
  with 1 show ?case by simp
qed

lemma Client_NewJSONRequest_Content_Type:
  assumes "Client_NewJSONRequest canon c opts w = Inr (r, w1)"
  shows "\<exists>a. headers (core (jcore r)) = Some a"
    and "JSONRequester_Values canon r ''Content-Type'' w1 = [''application/json'']"
  using assms
  by (auto simp: Client_NewJSONRequest_def Client_NewRequest_def Header_Set_def
      JSONRequester_Values_def Header_Values_def hmap_def
      split: sum.splits option.splits prod.splits)

text \<open>
  C4 (amended). Every builder that \<open>NewJSONRequest\<close> returns, whatever the client and the
  options, carries exactly one \<^verbatim>\<open>Content-Type\<close> value, \<^verbatim>\<open>application/json\<close>, set once at
  construction; and after any sequence of \<open>With*\<close> calls none of which writes the key
  \<^verbatim>\<open>Content-Type\<close> (in any spelling that canonicalises to it), the calls all return and the
  builder still carries exactly that one value.
\<close>

theorem JSON_builder_keeps_one_Content_Type:
  assumes "Client_NewJSONRequest canon c opts w = Inr (r, w1)"
    and "\<forall>x \<in> set xs. canon ''Content-Type'' \<notin> set (op_keys canon x)"
  shows "JSONRequester_Values canon r ''Content-Type'' w1 = [''application/json'']
       \<and> (\<exists>r' w2. JSONRequester_apply_all canon xs r w1 = Inr (r', w2)
            \<and> JSONRequester_Values canon r' ''Content-Type'' w2 = [''application/json''])"
proof -
  from Client_NewJSONRequest_Content_Type [OF assms(1)] obtain a where
    a: "headers (core (jcore r)) = Some a"
    and v: "JSONRequester_Values canon r ''Content-Type'' w1 = [''application/json'']"
    by blast
  from JSONRequester_apply_all_keeps [OF a assms(2), of w1] v show ?thesis
    by auto
qed


theorem JSON_builder_keeps_one_Content_Type_witness:
  "Client_NewJSONRequest CanonicalMIMEHeaderKey client_example [] world_client
     = Inr (json_example, world_json)
   \<and> JSONRequester_Values CanonicalMIMEHeaderKey json_example ''Content-Type'' world_json
       = [''application/json'']
   \<and> (\<exists>r' w2. JSONRequester_apply_all CanonicalMIMEHeaderKey
                  [OpWithTimeout (5 * Second), HeaderOp (OpWithHeader ''h1'' ''v1''),
                   HeaderOp (OpWithUniqueHeader ''h2'' ''v2''),
                   HeaderOp (OpWithHeaders [(''h1'', ''v3'')])] json_example world_json
                = Inr (r', w2)
         \<and> JSONRequester_Values CanonicalMIMEHeaderKey r' ''Content-Type'' w2
             = [''application/json''])"
proof -
  have h1: "Client_NewJSONRequest CanonicalMIMEHeaderKey client_example [] world_client
              = Inr (json_example, world_json)"
    using NewJSONRequest_example by simp
  have h2: "\<forall>x \<in> set [OpWithTimeout (5 * Second), HeaderOp (OpWithHeader ''h1'' ''v1''),
                         HeaderOp (OpWithUniqueHeader ''h2'' ''v2''),
                         HeaderOp (OpWithHeaders [(''h1'', ''v3'')])].
              CanonicalMIMEHeaderKey ''Content-Type'' \<notin> set (op_keys CanonicalMIMEHeaderKey x)"
    by (simp add: canon_Content_Type canon_h1 canon_h2)
  show ?thesis
    using h1 JSON_builder_keeps_one_Content_Type [OF h1 h2]
    by simp
qed

text \<open>
  C4 as stated fails for a \<open>With*\<close> call that names the key, which nothing keeps from
  changing it: after
  \<^verbatim>\<open>WithHeader("Content-Type", "text/plain")\<close> the JSON builder carries two values, and after
  \<^verbatim>\<open>WithUniqueHeader("content-type", "text/plain")\<close> its one value is no longer
  \<^verbatim>\<open>application/json\<close>.
\<close>

theorem JSON_builder_second_Content_Type:
  "(case JSONRequester_WithHeader CanonicalMIMEHeaderKey json_example
           ''Content-Type'' ''text/plain'' world_json of
      Inl p \<Rightarrow> False
    | Inr (r', w') \<Rightarrow>
        JSONRequester_Values CanonicalMIMEHeaderKey r' ''Content-Type'' w'
          = [''application/json'', ''text/plain''])
   \<and> (case JSONRequester_WithUniqueHeader CanonicalMIMEHeaderKey json_example
           ''content-type'' ''text/plain'' world_json of
      Inl p \<Rightarrow> False
    | Inr (r', w') \<Rightarrow>
        JSONRequester_Values CanonicalMIMEHeaderKey r' ''Content-Type'' w' = [''text/plain''])"
proof -
  have c: "CanonicalMIMEHeaderKey ''content-type'' = ''Content-Type''"
    by code_simp
  show ?thesis
    using NewJSONRequest_example
    by (simp add: JSONRequester_WithHeader_def Requester_WithHeader_def
        StreamRequester_WithHeader_def JSONRequester_WithUniqueHeader_def
        Requester_WithUniqueHeader_def StreamRequester_WithUniqueHeader_def
        StreamRequester_Clone_def Header_Clone_def Header_Add_def Header_Set_def
        JSONRequester_Values_def Header_Values_def hmap_def canon_Content_Type c)
qed

subsection \<open>Middlewares\<close>

lemma run_middlewares_append_ok:
  "run_middlewares i pre ctx hreq w = ((h, None), w1) \<Longrightarrow>
     run_middlewares i (pre @ post) ctx hreq w = run_middlewares (i + length pre) post ctx h w1"
proof (induction pre arbitrary: i hreq w)
  case Nil
  then show ?case by simp
next
  case (Cons m pre)
  obtain h' e' w' where m: "m ctx hreq w = ((h', e'), w')"
    by (metis surj_pair)
  show ?case
  proof (cases e')
    case None
    with Cons.prems m have "run_middlewares (Suc i) pre ctx h' w' = ((h, None), w1)"
      by simp
    from Cons.IH [OF this] m None show ?thesis
      by simp
  next
    case (Some e)
    with Cons.prems m show ?thesis by simp
  qed
qed

lemma Prepare_run:
  assumes "conn (cli req) \<noteq> None"
    and "newRequest ctx meth (Client_FullURL (cli req) endpoint) body = Inr r0"
  shows "StreamRequester_Prepare newRequest (with_middlewares req ms) ctx meth endpoint body w
           = run_middlewares 0 ms ctx (Some (r0\<lparr>hr_Header := headers req\<rparr>)) w"
  using assms
  by (auto simp: StreamRequester_Prepare_def StreamRequester_validate_def with_middlewares_def
      Client_FullURL_def)

text \<open>
  C6. On a builder made from a client, and when the transport request can be constructed:
  with no middleware, \<open>Prepare\<close> returns the constructed request with the builder's header bag
  as its header, the bag itself and so verbatim, and changes nothing. With middlewares, each
  one in registration order receives the request that the ones before it produced (the first
  one the request just described) and its result is the request from then on: if \<open>Prepare\<close>
  with the middlewares \<open>pre\<close> returns \<open>h\<close>, then with one more middleware \<open>m\<close> it returns
  what \<open>m\<close> returns on \<open>h\<close>. If \<open>m\<close> returns an error, \<open>Prepare\<close> returns no request and
  that error wrapped with the index of \<open>m\<close>, which is the number of middlewares before it, and
  the result and the world are those that \<open>m\<close> left, whatever middlewares \<open>post\<close> are
  registered after it: none of them runs.
\<close>

theorem Prepare_runs_middlewares_in_order:
  assumes "conn (cli req) \<noteq> None"
    and "newRequest ctx meth (Client_FullURL (cli req) endpoint) body = Inr r0"
  shows "StreamRequester_Prepare newRequest (with_middlewares req []) ctx meth endpoint body w
           = ((Some (r0\<lparr>hr_Header := headers req\<rparr>), None), w)
       \<and> (StreamRequester_Prepare newRequest (with_middlewares req pre) ctx meth endpoint body w
             = ((h, None), w1)
            \<longrightarrow> (m ctx h w1 = ((h', None), w2) \<longrightarrow>
                   StreamRequester_Prepare newRequest (with_middlewares req (pre @ [m]))
                     ctx meth endpoint body w = ((h', None), w2))
              \<and> (m ctx h w1 = ((h', Some err), w2) \<longrightarrow>
                   StreamRequester_Prepare newRequest (with_middlewares req (pre @ m # post))
                     ctx meth endpoint body w
                     = ((None, Some (MiddlewareError (length pre) err)), w2)))"
proof -
  have P: "\<And>ms. StreamRequester_Prepare newRequest (with_middlewares req ms) ctx meth endpoint
              body w = run_middlewares 0 ms ctx (Some (r0\<lparr>hr_Header := headers req\<rparr>)) w"
    using assms by (rule Prepare_run)
  show ?thesis
    by (auto simp: P run_middlewares_append_ok)
qed


lemma canon_mh: "CanonicalMIMEHeaderKey ''mh'' = ''Mh''"
  by code_simp

theorem Prepare_runs_middlewares_in_order_witness:
  "conn (cli builder_example) \<noteq> None
   \<and> (\<exists>r0 h w1.
         newRequest_example (Some Background) ''GET''
           (Client_FullURL (cli builder_example) ''/'') None = Inr r0
       \<and> hr_url r0 = ''http://127.0.0.1:8080/''
       \<and> StreamRequester_Prepare newRequest_example (with_middlewares builder_example [])
            (Some Background) ''GET'' ''/'' None world_builder
            = ((Some (r0\<lparr>hr_Header := headers builder_example\<rparr>), None), world_builder)
       \<and> StreamRequester_Prepare newRequest_example (with_middlewares builder_example [middleware_mh])
            (Some Background) ''GET'' ''/'' None world_builder = ((h, None), w1)
       \<and> middleware_puff (Some Background) h w1 = ((h, Some (External ''puff'')), w1)
       \<and> StreamRequester_Prepare newRequest_example
            (with_middlewares builder_example [middleware_mh, middleware_puff, middleware_mh])
            (Some Background) ''GET'' ''/'' None world_builder
            = ((None, Some (MiddlewareError 1 (External ''puff''))), w1))"
proof -
  let ?r0 = "\<lparr>hr_ctx = Background, hr_method = ''GET'', hr_url = ''http://127.0.0.1:8080/'',
              hr_body = None, hr_Header = None\<rparr>"
  have h1: "conn (cli builder_example) \<noteq> None"
    using NewStreamRequest_example NewCustomClient_example by simp
  have h2: "newRequest_example (Some Background) ''GET''
              (Client_FullURL (cli builder_example) ''/'') None = Inr ?r0"
    using NewStreamRequest_example NewCustomClient_example
    by (simp add: newRequest_example_def Client_FullURL_def combineURL_def HasSuffix_slash_def
        HasPrefix_slash_def)
  let ?h = "Some (?r0\<lparr>hr_Header := Some 1\<rparr>)"
  let ?w1 = "world_builder\<lparr>cells := (cells world_builder)
               (1 := (cells world_builder 1)(CanonicalMIMEHeaderKey ''mh'' \<mapsto>
                  Header_Values CanonicalMIMEHeaderKey (Some 1) ''mh'' world_builder @ [''mv'']))\<rparr>"
  have hd: "headers builder_example = Some 1"
    using NewStreamRequest_example by simp
  have r: "run_middlewares 0 [middleware_mh] (Some Background) ?h world_builder = ((?h, None), ?w1)"
    by (simp add: middleware_mh_def Header_Add_def)
  have p: "StreamRequester_Prepare newRequest_example (with_middlewares builder_example [middleware_mh])
          (Some Background) ''GET'' ''/'' None world_builder = ((?h, None), ?w1)"
    using Prepare_run [where newRequest = newRequest_example and ms = "[middleware_mh]"
        and w = world_builder, OF h1 h2] r hd
    by simp
  define h where "h = ?h"
  define w1 where "w1 = ?w1"
  note p = p [folded h_def w1_def]
  have m: "middleware_puff (Some Background) h w1 = ((h, Some (External ''puff'')), w1)"
    by (simp add: middleware_puff_def)
  show ?thesis
    using h1 h2 p m
      Prepare_runs_middlewares_in_order [where newRequest = newRequest_example
        and pre = "[middleware_mh]" and w = world_builder and h = h and ?w1.0 = w1
        and m = middleware_puff and h' = h and ?w2.0 = w1 and err = "External ''puff''"
        and post = "[middleware_mh]", OF h1 h2]
    by auto
qed

subsection \<open>The buffered builder\<close>

lemma client_on_facts:
  "NewCustomClient CanonicalMIMEHeaderKey network env_example ''http://127.0.0.1:8080''
     options_example world_example = Inr (client_on network, world_client)
   \<and> dheaders (client_on network) = Some 0
   \<and> (\<exists>c opts. conn (client_on network) = Some c \<and> Transport c = network opts)
   \<and> middlewares (client_on network) = [] \<and> host (client_on network) = ''http://127.0.0.1:8080''"
  unfolding client_on_def world_client_def
  by (auto simp: NewCustomClient_def ClientOptions_sanitize_def Let_def Header_Add_def
      Header_Values_def hmap_def options_example_def world_example_def Second_def
      canon_User_Agent userAgent_env_example NewConn_def)

lemma requester_on_facts:
  "Client_NewRequest (client_on network) [] world_client = Inr (requester_on network, world_builder)
   \<and> headers (core (requester_on network)) = Some 1
   \<and> cli (core (requester_on network)) = client_on network
   \<and> timeout (core (requester_on network)) = 0"
proof -
  have w: "world_builder
             = world_client\<lparr>cells := (cells world_client)(fresh world_client := cells world_client 0),
                 fresh := Suc (fresh world_client)\<rparr>"
    unfolding world_builder_def
    using NewCustomClient_example
    by (simp add: Client_NewStreamRequest_def Header_Clone_def)
  show ?thesis
    unfolding requester_on_def
    using client_on_facts [of network] NewCustomClient_example w
    by (simp add: Client_NewRequest_def Client_NewStreamRequest_def Header_Clone_def)
qed

text \<open>
  C7. \<open>Do\<close> of the buffered builder prepares the request under the context that \<open>Context\<close>
  gives. When \<open>Prepare\<close> fails, it returns status zero, no body and the error; when the
  transport call fails, it returns status zero, no body and the transport error. When the
  transport call succeeds, so that there is a status code, and reading the body fails, it returns
  that status code, no body, and the read error: the status is not discarded. When reading
  succeeds it returns the status code and the bytes.
\<close>

theorem Requester_Do_keeps_status_on_body_error:
  "(StreamRequester_Prepare newRequest (core req)
       (Some (fst (StreamRequester_Context (core req) ctx))) meth endpoint (Some data) w
      = ((h, Some err), w1)
    \<longrightarrow> Requester_Do newRequest req ctx meth endpoint data w
          = Inr ((0, None, Some (RequestConstructionError err)), w1))
   \<and> (StreamRequester_Prepare newRequest (core req)
         (Some (fst (StreamRequester_Context (core req) ctx))) meth endpoint (Some data) w
        = ((Some r, None), w1)
      \<and> conn (cli (core req)) = Some c
      \<longrightarrow> (Transport c r (w1\<lparr>wire := wire w1 @ [(r, hmap (hr_Header r) w1)]\<rparr>) = (Inl err, w2)
            \<longrightarrow> Requester_Do newRequest req ctx meth endpoint data w
                  = Inr ((0, None, Some (TransportError err)), w2))
        \<and> (Transport c r (w1\<lparr>wire := wire w1 @ [(r, hmap (hr_Header r) w1)]\<rparr>) = (Inr res, w2)
            \<longrightarrow> (Body res = (bytes, Some err)
                  \<longrightarrow> Requester_Do newRequest req ctx meth endpoint data w
                        = Inr ((StatusCode res, None, Some (BodyReadError err)), w2))
              \<and> (Body res = (bytes, None)
                  \<longrightarrow> Requester_Do newRequest req ctx meth endpoint data w
                        = Inr ((StatusCode res, Some bytes, None), w2))))"
  by (cases "StreamRequester_Context (core req) ctx")
    (simp add: Requester_Do_def StreamRequester_Do_def http_Client_Do_def)


lemma Prepare_requester_on:
  "StreamRequester_Prepare newRequest_example (core (requester_on network))
     (Some (fst (StreamRequester_Context (core (requester_on network)) (Some Background))))
     ''GET'' ''/t02'' (Some []) world_builder
   = ((Some request_example, None), world_builder)"
  using requester_on_facts [of network] client_on_facts [of network]
  by (auto simp: StreamRequester_Prepare_def StreamRequester_validate_def
      StreamRequester_Context_def newRequest_example_def Client_FullURL_def combineURL_def
      HasSuffix_slash_def HasPrefix_slash_def request_example_def)

theorem Requester_Do_keeps_status_on_body_error_witness:
  "Requester_Do newRequest_example (requester_on network_broken_body) (Some Background)
     ''GET'' ''/t02'' [] world_builder
     = Inr ((200, None, Some (BodyReadError (External ''unexpected EOF''))),
            world_builder\<lparr>wire := [(request_example, hmap (Some 1) world_builder)]\<rparr>)
   \<and> Requester_Do newRequest_example (requester_on network_down) (Some Background)
       ''GET'' ''/t02'' [] world_builder
     = Inr ((0, None, Some (TransportError (External ''connection refused''))),
            world_builder\<lparr>wire := [(request_example, hmap (Some 1) world_builder)]\<rparr>)
   \<and> Requester_Do newRequest_example \<lparr>core = StreamRequester_zero\<rparr> (Some Background)
       ''GET'' ''/t02'' [] world_builder
     = Inr ((0, None, Some (RequestConstructionError InvalidBuilder)), world_builder)"
proof -
  let ?w2 = "world_builder\<lparr>wire := wire world_builder @ [(request_example, hmap (hr_Header request_example) world_builder)]\<rparr>"
  have w2: "?w2 = world_builder\<lparr>wire := [(request_example, hmap (Some 1) world_builder)]\<rparr>"
    using NewStreamRequest_example by (simp add: request_example_def)
  obtain c1 o1 where c1: "conn (cli (core (requester_on network_broken_body))) = Some c1"
    "Transport c1 = network_broken_body o1"
    using requester_on_facts [of network_broken_body] client_on_facts [of network_broken_body]
    by auto
  obtain c2 o2 where c2: "conn (cli (core (requester_on network_down))) = Some c2"
    "Transport c2 = network_down o2"
    using requester_on_facts [of network_down] client_on_facts [of network_down]
    by auto
  have t1: "Transport c1 request_example ?w2
              = (Inr \<lparr>StatusCode = 200, Body = (''o'', Some (External ''unexpected EOF''))\<rparr>, ?w2)"
    by (simp add: c1 network_broken_body_def)
  have t2: "Transport c2 request_example ?w2 = (Inl (External ''connection refused''), ?w2)"
    by (simp add: c2 network_down_def)
  have p3: "StreamRequester_Prepare newRequest_example (core \<lparr>core = StreamRequester_zero\<rparr>)
              (Some (fst (StreamRequester_Context (core \<lparr>core = StreamRequester_zero\<rparr>)
                 (Some Background))))
              ''GET'' ''/t02'' (Some []) world_builder
            = ((None, Some InvalidBuilder), world_builder)"
    by (simp add: StreamRequester_Prepare_def StreamRequester_validate_def
        StreamRequester_zero_def Client_zero_def)
  have a: "Requester_Do newRequest_example (requester_on network_broken_body) (Some Background)
             ''GET'' ''/t02'' [] world_builder
           = Inr ((200, None, Some (BodyReadError (External ''unexpected EOF''))), ?w2)"
    using Requester_Do_keeps_status_on_body_error [where newRequest = newRequest_example
        and req = "requester_on network_broken_body" and ctx = "Some Background"
        and meth = "''GET''" and endpoint = "''/t02''" and data = "[]" and w = world_builder
        and r = request_example and ?w1.0 = world_builder and c = c1 and ?w2.0 = ?w2
        and res = "\<lparr>StatusCode = 200, Body = (''o'', Some (External ''unexpected EOF''))\<rparr>"
        and bytes = "''o''" and err = "External ''unexpected EOF''"]
      Prepare_requester_on [of network_broken_body] c1(1) t1
    by simp
  have b: "Requester_Do newRequest_example (requester_on network_down) (Some Background)
             ''GET'' ''/t02'' [] world_builder
           = Inr ((0, None, Some (TransportError (External ''connection refused''))), ?w2)"
    using Requester_Do_keeps_status_on_body_error [where newRequest = newRequest_example
        and req = "requester_on network_down" and ctx = "Some Background"
        and meth = "''GET''" and endpoint = "''/t02''" and data = "[]" and w = world_builder
        and r = request_example and ?w1.0 = world_builder and c = c2 and ?w2.0 = ?w2
        and err = "External ''connection refused''"]
      Prepare_requester_on [of network_down] c2(1) t2
    by simp
  have c: "Requester_Do newRequest_example \<lparr>core = StreamRequester_zero\<rparr> (Some Background)
             ''GET'' ''/t02'' [] world_builder
           = Inr ((0, None, Some (RequestConstructionError InvalidBuilder)), world_builder)"
    using Requester_Do_keeps_status_on_body_error [where newRequest = newRequest_example
        and req = "\<lparr>core = StreamRequester_zero\<rparr>" and ctx = "Some Background"
        and meth = "''GET''" and endpoint = "''/t02''" and data = "[]" and w = world_builder
        and h = None and err = InvalidBuilder and ?w1.0 = world_builder]
      p3
    by simp
  show ?thesis
    using a b c w2 by simp
qed

subsection \<open>The JSON builder\<close>

text \<open>
  C8. When serialising the payload fails, \<open>Prepare\<close> and \<open>Do\<close> of the JSON builder return
  the encoding error at once: \<open>Prepare\<close> returns no request, \<open>Do\<close> returns status zero and no
  body, and the world is the one they were called in, so nothing was handed to the transport
  (the wire history has not grown).
\<close>

theorem JSON_encoding_error_before_network:
  "marshal data = Inl err \<longrightarrow>
     JSONRequester_Prepare marshal newRequest req ctx meth endpoint data w
       = ((None, Some (EncodingError err)), w)
     \<and> JSONRequester_Do marshal newRequest req ctx meth endpoint data w
       = Inr ((0, None, Some (EncodingError err)), w)
     \<and> wire (snd (JSONRequester_Prepare marshal newRequest req ctx meth endpoint data w)) = wire w
     \<and> (\<forall>res w'. JSONRequester_Do marshal newRequest req ctx meth endpoint data w = Inr (res, w')
           \<longrightarrow> wire w' = wire w)"
proof
  assume failed: "marshal data = Inl err"
  have prepare: "JSONRequester_Prepare marshal newRequest req ctx meth endpoint data w
                   = ((None, Some (EncodingError err)), w)"
    using failed by (simp add: JSONRequester_Prepare_def)
  have do: "JSONRequester_Do marshal newRequest req ctx meth endpoint data w
              = Inr ((0, None, Some (EncodingError err)), w)"
    using failed by (simp add: JSONRequester_Do_def)
  show "JSONRequester_Prepare marshal newRequest req ctx meth endpoint data w
       = ((None, Some (EncodingError err)), w)
     \<and> JSONRequester_Do marshal newRequest req ctx meth endpoint data w
       = Inr ((0, None, Some (EncodingError err)), w)
     \<and> wire (snd (JSONRequester_Prepare marshal newRequest req ctx meth endpoint data w)) = wire w
     \<and> (\<forall>res w'. JSONRequester_Do marshal newRequest req ctx meth endpoint data w = Inr (res, w')
           \<longrightarrow> wire w' = wire w)"
    by (simp add: prepare do)
qed

subsection \<open>The JSON builder on concrete values\<close>

lemma client_example_on: "client_example = client_on network_ok"
  by (simp add: client_example_def client_on_def)

lemma json_example_core: "core (jcore json_example) = builder_example"
  unfolding json_example_def
  using NewStreamRequest_example
  by (simp add: Client_NewJSONRequest_def Client_NewRequest_def Header_Set_def)

lemma Prepare_builder_example:
  "StreamRequester_Prepare newRequest_example builder_example (Some Background)
     ''POST'' ''/api/1/test'' (Some body) w
   = ((Some \<lparr>hr_ctx = Background, hr_method = ''POST'',
              hr_url = ''http://127.0.0.1:8080/api/1/test'', hr_body = Some body,
              hr_Header = Some 1\<rparr>, None), w)"
  using NewStreamRequest_example NewCustomClient_example
  by (auto simp: StreamRequester_Prepare_def StreamRequester_validate_def
      newRequest_example_def Client_FullURL_def combineURL_def
      HasSuffix_slash_def HasPrefix_slash_def)



lemma world_json_wire: "wire world_json = []"
  unfolding world_json_def
  using NewStreamRequest_example
  by (simp add: Client_NewJSONRequest_def Client_NewRequest_def Header_Set_def)

lemma builder_example_conn:
  "\<exists>c opts. conn (cli builder_example) = Some c \<and> Transport c = network_ok opts"
  using NewStreamRequest_example client_on_facts [of network_ok] client_example_on
  by auto

lemma builder_example_Context:
  "StreamRequester_Context builder_example (Some Background) = (Background, None)"
  using NewStreamRequest_example by (simp add: StreamRequester_Context_def)

lemma builder_example_Do:
  "StreamRequester_Do newRequest_example builder_example (Some Background)
     ''POST'' ''/api/1/test'' (Some body) w
   = Inr ((200, Some (''ok'', None), None),
       w\<lparr>wire := wire w @ [(\<lparr>hr_ctx = Background, hr_method = ''POST'',
              hr_url = ''http://127.0.0.1:8080/api/1/test'', hr_body = Some body,
              hr_Header = Some 1\<rparr>, hmap (Some 1) w)]\<rparr>)"
proof -
  obtain c opts where c: "conn (cli builder_example) = Some c" "Transport c = network_ok opts"
    using builder_example_conn by blast
  show ?thesis
    by (simp add: StreamRequester_Do_def Prepare_builder_example c http_Client_Do_def
        network_ok_def)
qed

lemma json_example_Do:
  "JSONRequester_Do marshal_example newRequest_example json_example (Some Background)
     ''POST'' ''/api/1/test'' (Str ''hi'') w
   = Inr ((200, Some ''ok'', None),
       w\<lparr>wire := wire w @ [(\<lparr>hr_ctx = Background, hr_method = ''POST'',
              hr_url = ''http://127.0.0.1:8080/api/1/test'',
              hr_body = Some (CHR 0x22 # ''hi'' @ [CHR 0x22]),
              hr_Header = Some 1\<rparr>, hmap (Some 1) w)]\<rparr>)"
  by (simp add: JSONRequester_Do_def Requester_Do_def json_example_core
      builder_example_Context builder_example_Do)

theorem JSON_encoding_error_before_network_witness:
  "marshal_example Chan = Inl (External ''json: unsupported type: chan int'')
   \<and> JSONRequester_Prepare marshal_example newRequest_example json_example (Some Background)
       ''POST'' ''/api/1/test'' Chan world_json
     = ((None, Some (EncodingError (External ''json: unsupported type: chan int''))), world_json)
   \<and> JSONRequester_Do marshal_example newRequest_example json_example (Some Background)
       ''POST'' ''/api/1/test'' Chan world_json
     = Inr ((0, None, Some (EncodingError (External ''json: unsupported type: chan int''))),
            world_json)
   \<and> wire world_json = []
   \<and> (\<exists>w'. JSONRequester_Do marshal_example newRequest_example json_example (Some Background)
              ''POST'' ''/api/1/test'' (Str ''hi'') world_json
            = Inr ((200, Some ''ok'', None), w')
          \<and> length (wire w') = 1)"
proof -
  have m: "marshal_example Chan = Inl (External ''json: unsupported type: chan int'')"
    by simp
  have ok: "\<exists>w'. JSONRequester_Do marshal_example newRequest_example json_example (Some Background)
              ''POST'' ''/api/1/test'' (Str ''hi'') world_json
            = Inr ((200, Some ''ok'', None), w')
          \<and> length (wire w') = 1"
    by (simp add: json_example_Do world_json_wire)
  from m JSON_encoding_error_before_network [where marshal = marshal_example
        and newRequest = newRequest_example and data = Chan
        and err = "External ''json: unsupported type: chan int''" and req = json_example
        and ctx = "Some Background" and meth = "''POST''" and endpoint = "''/api/1/test''"
        and w = world_json]
  have "JSONRequester_Prepare marshal_example newRequest_example json_example (Some Background)
       ''POST'' ''/api/1/test'' Chan world_json
     = ((None, Some (EncodingError (External ''json: unsupported type: chan int''))), world_json)
   \<and> JSONRequester_Do marshal_example newRequest_example json_example (Some Background)
       ''POST'' ''/api/1/test'' Chan world_json
     = Inr ((0, None, Some (EncodingError (External ''json: unsupported type: chan int''))),
            world_json)"
    by blast
  with m ok world_json_wire show ?thesis
    by blast
qed

subsection \<open>Replaying a builder\<close>

lemma client_mh_facts:
  "NewCustomClient CanonicalMIMEHeaderKey network_ok env_example ''http://127.0.0.1:8080''
     (options_example\<lparr>Middlewares := [middleware_mh]\<rparr>) world_example
     = Inr (client_mh, world_client)
   \<and> dheaders client_mh = Some 0
   \<and> (\<exists>c opts. conn client_mh = Some c \<and> Transport c = network_ok opts)
   \<and> middlewares client_mh = [middleware_mh] \<and> host client_mh = ''http://127.0.0.1:8080''"
  unfolding client_mh_def world_client_def
  by (auto simp: NewCustomClient_def ClientOptions_sanitize_def Let_def Header_Add_def
      Header_Values_def hmap_def options_example_def world_example_def Second_def
      canon_User_Agent userAgent_env_example NewConn_def)

lemma builder_mh_facts:
  "Client_NewStreamRequest client_mh [] world_client = Inr (builder_mh, world_builder)
   \<and> headers builder_mh = Some 1 \<and> cli builder_mh = client_mh \<and> timeout builder_mh = 0"
proof -
  have w: "world_builder
             = world_client\<lparr>cells := (cells world_client)(fresh world_client := cells world_client 0),
                 fresh := Suc (fresh world_client)\<rparr>"
    unfolding world_builder_def
    using NewCustomClient_example
    by (simp add: Client_NewStreamRequest_def Header_Clone_def)
  show ?thesis
    unfolding builder_mh_def
    using client_mh_facts NewCustomClient_example w
    by (simp add: Client_NewStreamRequest_def Header_Clone_def)
qed

lemma Prepare_builder_mh:
  "StreamRequester_Prepare newRequest_example builder_mh (Some Background) ''GET'' ''/'' None w
   = ((Some request_root, None), add_mv w)"
  using builder_mh_facts client_mh_facts
  by (auto simp: StreamRequester_Prepare_def StreamRequester_validate_def
      newRequest_example_def Client_FullURL_def combineURL_def
      HasSuffix_slash_def HasPrefix_slash_def request_root_def middleware_mh_def
      Header_Add_def Header_Values_def hmap_def canon_mh add_mv_def)

lemma Do_builder_mh:
  "StreamRequester_Do newRequest_example builder_mh (Some Background) ''GET'' ''/'' None w
   = Inr ((200, Some (''ok'', None), None),
       (add_mv w)\<lparr>wire := wire (add_mv w) @ [(request_root, cells (add_mv w) 1)]\<rparr>)"
proof -
  obtain c opts where c: "conn (cli builder_mh) = Some c" "Transport c = network_ok opts"
    using builder_mh_facts client_mh_facts by auto
  show ?thesis
    by (simp add: StreamRequester_Do_def Prepare_builder_mh c http_Client_Do_def
        network_ok_def request_root_def hmap_def)
qed

lemma world_builder_Mh: "cells world_builder (Suc 0) ''Mh'' = None"
  using NewStreamRequest_example by simp

text \<open>
  C2, on the code. \<open>Prepare\<close> hands the builder's own header map to the request, so a
  middleware that adds a header to the request writes into the builder. With the middleware of
  the package's own test: the builder has no \<^verbatim>\<open>mh\<close> value at first; after one \<open>Prepare\<close> it
  has one, after a second it has two; and two calls of \<open>Do\<close> on the same builder value put
  requests on the wire that carry one \<^verbatim>\<open>mh\<close> value the first time and two the second time.
\<close>

theorem Prepare_twice_accumulates_middleware_header:
  "Header_Values CanonicalMIMEHeaderKey (headers builder_mh) ''mh'' world_builder = []
   \<and> (case StreamRequester_Prepare newRequest_example builder_mh (Some Background)
              ''GET'' ''/'' None world_builder of
         ((h1, e1), w1) \<Rightarrow>
           e1 = None
           \<and> Header_Values CanonicalMIMEHeaderKey (headers builder_mh) ''mh'' w1 = [''mv'']
           \<and> (case StreamRequester_Prepare newRequest_example builder_mh (Some Background)
                      ''GET'' ''/'' None w1 of
                 ((h2, e2), w2) \<Rightarrow>
                   e2 = None
                   \<and> Header_Values CanonicalMIMEHeaderKey (headers builder_mh) ''mh'' w2
                       = [''mv'', ''mv'']))
   \<and> (case StreamRequester_Do newRequest_example builder_mh (Some Background)
              ''GET'' ''/'' None world_builder of
         Inl p \<Rightarrow> False
       | Inr (res1, w1) \<Rightarrow>
           (case StreamRequester_Do newRequest_example builder_mh (Some Background)
                   ''GET'' ''/'' None w1 of
              Inl p \<Rightarrow> False
            | Inr (res2, w2) \<Rightarrow>
                map (\<lambda>(r, h). h ''Mh'') (wire w2) = [Some [''mv''], Some [''mv'', ''mv'']]))"
proof -
  have h: "headers builder_mh = Some 1"
    using builder_mh_facts by simp
  have w0: "wire world_builder = []"
    using NewStreamRequest_example by simp
  show ?thesis
    by (simp add: Prepare_builder_mh Do_builder_mh h w0 world_builder_Mh Header_Values_def
        hmap_def canon_mh add_mv_def)
qed

end
